theory Spec2Isabelle
  imports
    Main
    "HOL-Library.Sublist"
    "HOL-Library.Char_ord"
    "HOL-Library.List_Lexorder"
    "HOL-Library.FSet"
begin

section \<open>Strings, bytes and the helpers of package strings\<close>

text \<open>
  A Go string is a sequence of bytes: \<^typ>\<open>string\<close>, whose characters are bytes. Go
  compares strings bytewise and lexicographically, which is the order of
  \<^theory_text>\<open>List_Lexorder\<close> over \<^theory_text>\<open>Char_ord\<close>.
\<close>

type_synonym bytes = string

definition nl :: char where
  "nl = CHR 0x0A"

definition dq :: char where
  "dq = CHR 0x22"

definition bsl :: char where
  "bsl = CHR 0x5C"

text \<open>\<^verbatim>\<open>strings.HasPrefix(s, p)\<close> and \<^verbatim>\<open>strings.TrimSuffix(s, suf)\<close>: the latter removes
  one copy of the suffix, when it is there.\<close>

definition HasPrefix :: "string \<Rightarrow> string \<Rightarrow> bool" where
  "HasPrefix s p = prefix p s"

definition TrimSuffix :: "string \<Rightarrow> string \<Rightarrow> string" where
  "TrimSuffix s suf = (if suffix suf s then take (length s - length suf) s else s)"

text \<open>\<^verbatim>\<open>strings.ToLower\<close> and \<^verbatim>\<open>strings.EqualFold\<close> on the ASCII letters. The source
  compares the results with the ASCII words \<^verbatim>\<open>text/html\<close> and \<^verbatim>\<open>gzip\<close> only, and no
  letter of these words has a case variant outside ASCII.\<close>

definition lower_char :: "char \<Rightarrow> char" where
  "lower_char c =
     (if CHR ''A'' \<le> c \<and> c \<le> CHR ''Z'' then char_of (of_char c + (32::nat)) else c)"

definition ToLower :: "string \<Rightarrow> string" where
  "ToLower s = map lower_char s"

definition EqualFold :: "string \<Rightarrow> string \<Rightarrow> bool" where
  "EqualFold s t = (ToLower s = ToLower t)"

text \<open>\<^verbatim>\<open>strings.Replace(s, old, new, 1)\<close>: the first occurrence of \<open>old\<close>, scanning from
  the left, is replaced; a string without \<open>old\<close> is returned as it is.\<close>

fun Replace1 :: "string \<Rightarrow> string \<Rightarrow> string \<Rightarrow> string" where
  "Replace1 [] old new = (if old = [] then new else [])"
| "Replace1 (c # s) old new =
     (if prefix old (c # s) then new @ drop (length old) (c # s)
      else c # Replace1 s old new)"

section \<open>HTTP data: headers, requests, response writers\<close>

text \<open>
  \<^verbatim>\<open>http.Header\<close> maps a canonical header name to its list of values; \<open>Get\<close> returns
  the first value, or the empty string. Keys of the model are canonical names.
\<close>

type_synonym Header = "string \<Rightarrow> string list"

definition Header_Get :: "Header \<Rightarrow> string \<Rightarrow> string" where
  "Header_Get h k = (case h k of [] \<Rightarrow> [] | v # _ \<Rightarrow> v)"

definition Header_Set :: "Header \<Rightarrow> string \<Rightarrow> string \<Rightarrow> Header" where
  "Header_Set h k v = h(k := [v])"

definition Header_Add :: "Header \<Rightarrow> string \<Rightarrow> string \<Rightarrow> Header" where
  "Header_Add h k v = h(k := h k @ [v])"

definition Header_Del :: "Header \<Rightarrow> string \<Rightarrow> Header" where
  "Header_Del h k = h(k := [])"

text \<open>The fields of \<^verbatim>\<open>*http.Request\<close> that the middleware reads: \<^verbatim>\<open>req.URL.Path\<close>,
  \<^verbatim>\<open>req.URL.Scheme\<close>, \<^verbatim>\<open>req.Host\<close> and \<^verbatim>\<open>req.Header\<close>.\<close>

record request =
  url_path :: string
  url_scheme :: string
  req_host :: string
  req_header :: Header

text \<open>
  The client's \<^verbatim>\<open>http.ResponseWriter\<close> \<open>rw\<close>: its header map, and the calls of
  \<open>WriteHeader\<close> and \<open>Write\<close> made on it, in order.
\<close>

datatype rw_call = RW_WriteHeader int | RW_Write bytes

record responseWriter =
  rw_header :: Header
  rw_calls :: "rw_call list"

definition rw_WriteHeader :: "responseWriter \<Rightarrow> int \<Rightarrow> responseWriter" where
  "rw_WriteHeader w code = w\<lparr>rw_calls := rw_calls w @ [RW_WriteHeader code]\<rparr>"

definition rw_Write :: "responseWriter \<Rightarrow> bytes \<Rightarrow> responseWriter" where
  "rw_Write w b = w\<lparr>rw_calls := rw_calls w @ [RW_Write b]\<rparr>"

definition rw_Header_Set :: "responseWriter \<Rightarrow> string \<Rightarrow> string \<Rightarrow> responseWriter" where
  "rw_Header_Set w k v = w\<lparr>rw_header := Header_Set (rw_header w) k v\<rparr>"

definition rw_Header_Add :: "responseWriter \<Rightarrow> string \<Rightarrow> string \<Rightarrow> responseWriter" where
  "rw_Header_Add w k v = w\<lparr>rw_header := Header_Add (rw_header w) k v\<rparr>"

definition rw_Header_Del :: "responseWriter \<Rightarrow> string \<Rightarrow> responseWriter" where
  "rw_Header_Del w k = w\<lparr>rw_header := Header_Del (rw_header w) k\<rparr>"

section \<open>The capturing writer\<close>

text \<open>
  \<^verbatim>\<open>modifyingWriter\<close> embeds the client's writer, so \<open>Header()\<close> is the client's header
  map; \<open>Write\<close> appends to the buffer and \<open>WriteHeader\<close> stores the code. The status
  0 means that none was stored.
\<close>

record modifyingWriter =
  ResponseWriter :: responseWriter
  status :: int
  body :: bytes

definition mw_Write :: "modifyingWriter \<Rightarrow> bytes \<Rightarrow> modifyingWriter" where
  "mw_Write w b =
     (let w1 = (if status w = 0 then w\<lparr>status := 200\<rparr> else w)
      in w1\<lparr>body := body w1 @ b\<rparr>)"

definition mw_WriteHeader :: "modifyingWriter \<Rightarrow> int \<Rightarrow> modifyingWriter" where
  "mw_WriteHeader w code = w\<lparr>status := code\<rparr>"

text \<open>
  The downstream handler is any Go code that returns; what the middleware sees of it
  is the sequence of calls it makes on the writer it was given.
\<close>

datatype hcall =
    H_Set string string
  | H_Add string string
  | H_Del string
  | H_Write bytes
  | H_WriteHeader int

type_synonym handler = "request \<Rightarrow> hcall list"

fun mw_call :: "modifyingWriter \<Rightarrow> hcall \<Rightarrow> modifyingWriter" where
  "mw_call w (H_Set k v) = w\<lparr>ResponseWriter := rw_Header_Set (ResponseWriter w) k v\<rparr>"
| "mw_call w (H_Add k v) = w\<lparr>ResponseWriter := rw_Header_Add (ResponseWriter w) k v\<rparr>"
| "mw_call w (H_Del k) = w\<lparr>ResponseWriter := rw_Header_Del (ResponseWriter w) k\<rparr>"
| "mw_call w (H_Write b) = mw_Write w b"
| "mw_call w (H_WriteHeader code) = mw_WriteHeader w code"

definition next_ServeHTTP :: "handler \<Rightarrow> modifyingWriter \<Rightarrow> request \<Rightarrow> modifyingWriter" where
  "next_ServeHTTP h w req = foldl mw_call w (h req)"

section \<open>The standard library\<close>

text \<open>
  A compiled regular expression keeps its source. A panic is a value: that of
  \<^verbatim>\<open>regexp.MustCompile\<close> on a pattern that does not compile, and that of a slice
  expression out of range.
\<close>

datatype regexp = Regexp string

datatype panic = MustCompile_panic string string | SliceBounds_panic nat nat

datatype 'a outcome = Panic panic | Returns 'a

record URL =
  Loc :: string
  Lastmod :: string
  Priority :: rat

record URLSet =
  Xmlns :: string
  URLs :: "URL list"

text \<open>
  What the middleware calls in Go's standard library and the model does not define:
  the syntax and the matching of regular expressions, gzip, the escaping and the
  errors of the XML encoder, \<^verbatim>\<open>http.Error\<close> and the clock.
  \<^item> \<open>re_syntax_error p\<close> is the error of \<^verbatim>\<open>regexp.Compile(p)\<close>, if any;
  \<^item> \<open>re_match p s\<close> is \<^verbatim>\<open>MatchString(s)\<close> of the expression compiled from \<open>p\<close>, and
    \<open>re_find_index p s\<close> its \<^verbatim>\<open>FindStringIndex(s)\<close>;
  \<^item> \<open>gzip_header_error b\<close> is the error of \<^verbatim>\<open>gzip.NewReader\<close> on the bytes \<open>b\<close>, if
    any, and \<open>gzip_read_all b\<close> the result of \<^verbatim>\<open>io.ReadAll\<close> on that reader;
  \<^item> \<open>gzip_write b\<close> is the error of \<^verbatim>\<open>Write(b)\<close> on a \<^verbatim>\<open>gzip.Writer\<close>, or the bytes in
    its buffer after \<open>Close\<close>;
  \<^item> \<open>xml_error u\<close> is the error of \<^verbatim>\<open>xml.MarshalIndent\<close> on the \<open>urlset\<close> \<open>u\<close>, if any, and
    \<open>xml_EscapeText s\<close> the text \<open>s\<close> as the encoder writes it in an element or in an
    attribute;
  \<^item> \<open>http_Error w msg code\<close> is the writer \<open>w\<close> after \<^verbatim>\<open>http.Error(w, msg, code)\<close>;
  \<^item> \<open>time_now\<close> is \<^verbatim>\<open>time.Now().UTC()\<close> in the layout \<^verbatim>\<open>2006-01-02T15:04:05Z\<close>.
\<close>

record stdlib =
  re_syntax_error :: "string \<Rightarrow> string option"
  re_match :: "string \<Rightarrow> string \<Rightarrow> bool"
  re_find_index :: "string \<Rightarrow> string \<Rightarrow> (nat \<times> nat) option"
  gzip_header_error :: "bytes \<Rightarrow> string option"
  gzip_read_all :: "bytes \<Rightarrow> string + bytes"
  gzip_write :: "bytes \<Rightarrow> string + bytes"
  xml_error :: "URLSet \<Rightarrow> string option"
  xml_EscapeText :: "string \<Rightarrow> string"
  http_Error :: "responseWriter \<Rightarrow> string \<Rightarrow> int \<Rightarrow> responseWriter"
  time_now :: string

definition regexp_Compile :: "stdlib \<Rightarrow> string \<Rightarrow> string + regexp" where
  "regexp_Compile env p =
     (case re_syntax_error env p of Some err \<Rightarrow> Inl err | None \<Rightarrow> Inr (Regexp p))"

definition regexp_MustCompile :: "stdlib \<Rightarrow> string \<Rightarrow> regexp outcome" where
  "regexp_MustCompile env p =
     (case regexp_Compile env p of
        Inl err \<Rightarrow> Panic (MustCompile_panic p err)
      | Inr re \<Rightarrow> Returns re)"

fun MatchString :: "stdlib \<Rightarrow> regexp \<Rightarrow> string \<Rightarrow> bool" where
  "MatchString env (Regexp p) s = re_match env p s"

fun FindStringIndex :: "stdlib \<Rightarrow> regexp \<Rightarrow> string \<Rightarrow> (nat \<times> nat) option" where
  "FindStringIndex env (Regexp p) s = re_find_index env p s"

section \<open>Configuration and construction\<close>

record Config =
  SitemapPath :: string
  RobotsPath :: string
  Ignore :: "string list"
  GTMID :: string

definition CreateConfig :: Config where
  "CreateConfig =
     \<lparr>SitemapPath = ''/sitemap.xml'', RobotsPath = ''/robots.txt'', Ignore = [], GTMID = []\<rparr>"

text \<open>The registry \<open>paths\<close> is a Go map with empty values: a finite set of strings.\<close>

record sitemapGenerator =
  "next" :: handler
  name :: string
  sitemapPath :: string
  robotsPath :: string
  ignores :: "regexp list"
  paths :: "string fset"
  gtmID :: string

definition defaultPatterns :: "string list" where
  "defaultPatterns =
    [''(?i)'' @ [bsl] @ ''.env'',
     ''(?i)'' @ [bsl] @ ''.bak'',
     ''(?i)'' @ [bsl] @ ''.old'',
     ''(?i)'' @ [bsl] @ ''.example'',
     ''(?i)'' @ [bsl] @ ''.exmaple'',
     ''(?i)'' @ [bsl] @ ''.sample'',
     ''(?i)'' @ [bsl] @ ''.tmpl'',
     ''(?i)'' @ [bsl] @ ''.tpl'',
     ''(?i)'' @ [bsl] @ ''.dist'',
     ''(?i)'' @ [bsl] @ ''.~'',
     ''(?i)'' @ [bsl] @ ''.php'',
     ''(?i)'' @ [bsl] @ ''.aspx'',
     ''(?i)config'',
     ''(?i)wp-'',
     ''(?i)sitemap'',
     ''(?i)undefined'',
     ''^/_next/*'',
     [bsl] @ ''.(jpg|jpeg|png|gif|webp|svg|bmp|tif|tiff|ico|txt|php|exe|css|js|json|pdf|doc|docx|xls|xlsx|ppt|pptx|mp3|mp4|avi|mov|zip|rar|tar|gz|env|html|xml)$'']"

text \<open>The first loop of \<open>New\<close>: the user's patterns are compiled in order and appended;
  the first one that does not compile ends the construction with the formatted
  error \<^verbatim>\<open>invalid ignore regex %s: %v\<close>.\<close>

fun compile_ignores :: "stdlib \<Rightarrow> string list \<Rightarrow> regexp list \<Rightarrow> string + regexp list" where
  "compile_ignores env [] compiled = Inr compiled"
| "compile_ignores env (pattern # rest) compiled =
     (case regexp_Compile env pattern of
        Inl err \<Rightarrow> Inl (''invalid ignore regex '' @ pattern @ '': '' @ err)
      | Inr re \<Rightarrow> compile_ignores env rest (compiled @ [re]))"

text \<open>The second loop: the built-in patterns go through \<open>MustCompile\<close>.\<close>

fun compile_defaults :: "stdlib \<Rightarrow> string list \<Rightarrow> regexp list \<Rightarrow> regexp list outcome" where
  "compile_defaults env [] compiled = Returns compiled"
| "compile_defaults env (pattern # rest) compiled =
     (case regexp_MustCompile env pattern of
        Panic p \<Rightarrow> Panic p
      | Returns re \<Rightarrow> compile_defaults env rest (compiled @ [re]))"

text \<open>\<open>New\<close> returns the pair (handler, error) of the source as a sum: \<open>Inl\<close> the error,
  with no handler, \<open>Inr\<close> the generator.\<close>

definition New :: "stdlib \<Rightarrow> handler \<Rightarrow> Config \<Rightarrow> string \<Rightarrow> (string + sitemapGenerator) outcome" where
  "New env nxt config nm =
     (let config1 = (if SitemapPath config = [] then config\<lparr>SitemapPath := ''/sitemap.xml''\<rparr>
                     else config);
          config2 = (if RobotsPath config1 = [] then config1\<lparr>RobotsPath := ''/robots.txt''\<rparr>
                     else config1)
      in case compile_ignores env (Ignore config2) [] of
           Inl err \<Rightarrow> Returns (Inl err)
         | Inr user \<Rightarrow>
             (case compile_defaults env defaultPatterns user of
                Panic p \<Rightarrow> Panic p
              | Returns all \<Rightarrow>
                  Returns (Inr \<lparr>next = nxt, name = nm,
                    sitemapPath = SitemapPath config2, robotsPath = RobotsPath config2,
                    ignores = all, paths = {||}, gtmID = GTMID config2\<rparr>)))"

section \<open>The sitemap and robots builders\<close>

text \<open>The scheme of a request: the header \<^verbatim>\<open>X-Forwarded-Proto\<close>, or \<^verbatim>\<open>req.URL.Scheme\<close>
  when the header is empty. The source computes it in each of its three functions.\<close>

definition request_scheme :: "request \<Rightarrow> string" where
  "request_scheme req =
     (let scheme = Header_Get (req_header req) ''X-Forwarded-Proto''
      in if scheme = [] then url_scheme req else scheme)"

definition request_base :: "request \<Rightarrow> string" where
  "request_base req = request_scheme req @ ''://'' @ req_host req"

text \<open>The filtering loop of \<open>buildSitemapXML\<close> over the snapshot \<open>infos\<close>, with its two
  variables \<open>filteredInfos\<close> and \<open>hasRoot\<close>. A \<open>pathInfo\<close> has the one field \<open>loc\<close>: it
  is the string.\<close>

type_synonym pathInfo = string

fun filter_infos :: "string \<Rightarrow> pathInfo list \<Rightarrow> pathInfo list \<Rightarrow> bool \<Rightarrow> pathInfo list \<times> bool" where
  "filter_infos base [] filteredInfos hasRoot = (filteredInfos, hasRoot)"
| "filter_infos base (info # infos) filteredInfos hasRoot =
     (if HasPrefix info (base @ ''/'') \<or> info = base
      then filter_infos base infos (filteredInfos @ [info]) (if info = base then True else hasRoot)
      else filter_infos base infos filteredInfos hasRoot)"

text \<open>From the snapshot to the \<open>urlset\<close>: filtering and the synthesis of the root when
  there is a request, sorting by \<open>loc\<close>, and the priorities. \<open>sort.Slice\<close> orders by
  the strict order of strings, so its result is the sorted list.\<close>

definition build_urlset :: "pathInfo list \<Rightarrow> request option \<Rightarrow> string \<Rightarrow> URLSet" where
  "build_urlset infos req lastmodStr =
     (let (base, filteredInfos) =
            (case req of
               Some r \<Rightarrow>
                 (let base = request_base r;
                      (filtered, hasRoot) = filter_infos base infos [] False
                  in (base, if \<not> hasRoot then filtered @ [base] else filtered))
             | None \<Rightarrow> ([], infos));
          sorted_infos = sort filteredInfos
      in \<lparr>Xmlns = ''http://www.sitemaps.org/schemas/sitemap/0.9'',
          URLs = map (\<lambda>info. \<lparr>Loc = info, Lastmod = lastmodStr,
                   Priority = (if base \<noteq> [] \<and> info = base then 1.0 else 0.8)\<rparr>) sorted_infos\<rparr>)"

text \<open>
  The XML encoder. A \<^verbatim>\<open>float64\<close> field is written by \<^verbatim>\<open>strconv.FormatFloat(v, 'g', -1, 64)\<close>:
  the shortest decimal that reads back as \<open>v\<close>, with no trailing zero and no decimal
  point for a whole number. \<open>FormatFloat\<close> is that text for the values the builder
  produces, a whole number of tenths below one million. \<open>MarshalIndent\<close> with the
  empty prefix and an indent of two spaces puts each child element on a line of
  its own.
\<close>

definition digit :: "nat \<Rightarrow> char" where
  "digit n = ''0123456789'' ! n"

fun decimal :: "nat \<Rightarrow> string" where
  "decimal n =
     (if n < 10 then [digit n] else decimal (n div 10) @ [digit (n mod 10)])"

declare decimal.simps [simp del]

definition FormatFloat :: "rat \<Rightarrow> string" where
  "FormatFloat v =
     (let tenths = nat \<lfloor>v * 10\<rfloor>
      in decimal (tenths div 10) @
         (if tenths mod 10 = 0 then [] else ''.'' @ decimal (tenths mod 10)))"

definition xml_Header :: string where
  "xml_Header =
     ''<?xml version='' @ [dq] @ ''1.0'' @ [dq] @ '' encoding='' @ [dq] @ ''UTF-8'' @ [dq] @
     ''?>'' @ [nl]"

definition priority_element :: "URL \<Rightarrow> string" where
  "priority_element u = ''<priority>'' @ FormatFloat (Priority u) @ ''</priority>''"

definition marshal_url :: "stdlib \<Rightarrow> URL \<Rightarrow> string" where
  "marshal_url env u =
     [nl] @ ''  <url>'' @
     [nl] @ ''    <loc>'' @ xml_EscapeText env (Loc u) @ ''</loc>'' @
     [nl] @ ''    <lastmod>'' @ xml_EscapeText env (Lastmod u) @ ''</lastmod>'' @
     [nl] @ ''    '' @ priority_element u @
     [nl] @ ''  </url>''"

definition xml_MarshalIndent :: "stdlib \<Rightarrow> URLSet \<Rightarrow> string + bytes" where
  "xml_MarshalIndent env urlset =
     (case xml_error env urlset of
        Some err \<Rightarrow> Inl err
      | None \<Rightarrow>
          Inr (''<urlset xmlns='' @ [dq] @ xml_EscapeText env (Xmlns urlset) @ [dq] @ ''>'' @
               concat (map (marshal_url env) (URLs urlset)) @
               (if URLs urlset = [] then [] else [nl]) @ ''</urlset>''))"

text \<open>
  \<open>buildSitemapXML\<close>: the snapshot of the registry, the \<open>urlset\<close>, the document; \<open>None\<close>
  is the \<^verbatim>\<open>nil\<close> of the source. Go ranges over a map in an order of its choice; the
  model takes the keys in ascending order, and \<open>build_urlset\<close> sorts what it keeps,
  so the order of the snapshot does not show in the result.
\<close>

definition buildSitemapXML :: "stdlib \<Rightarrow> sitemapGenerator \<Rightarrow> request option \<Rightarrow> bytes option" where
  "buildSitemapXML env sg req =
     (let infos = sorted_list_of_fset (paths sg);
          urlset = build_urlset infos req (time_now env)
      in case xml_MarshalIndent env urlset of
           Inl err \<Rightarrow> None
         | Inr output \<Rightarrow> Some (xml_Header @ output))"

definition buildRobotsTxt :: "sitemapGenerator \<Rightarrow> request \<Rightarrow> string" where
  "buildRobotsTxt sg req =
     (let scheme = request_scheme req;
          host = req_host req;
          sitemapURL = scheme @ ''://'' @ host @ sitemapPath sg
      in ''User-agent: *'' @ [nl] @ ''Sitemap: '' @ sitemapURL @ [nl])"

section \<open>The analytics blocks\<close>

definition sq :: char where
  "sq = CHR 0x27"

text \<open>\<^verbatim>\<open>fmt.Sprintf(gtmScriptTemplate, id)\<close> and \<^verbatim>\<open>fmt.Sprintf(gtmNoscriptTemplate, id)\<close>: each
  template has the one verb \<^verbatim>\<open>%s\<close>.\<close>

definition gtmScript :: "string \<Rightarrow> string" where
  "gtmScript gtm =
     ''<!-- Google Tag Manager -->'' @ [nl] @
     ''<script>(function(w,d,s,l,i){w[l]=w[l]||[];w[l].push({'gtm.start':'' @ [nl] @
     ''new Date().getTime(),event:'gtm.js'});var f=d.getElementsByTagName(s)[0],'' @ [nl] @
     ''j=d.createElement(s),dl=l!='dataLayer'?'&l='+l:'' @ [sq, sq] @ '';j.async=true;j.src='' @ [nl] @
     [sq] @ ''https://www.googletagmanager.com/gtm.js?id='+i+dl;f.parentNode.insertBefore(j,f);'' @ [nl] @
     ''})(window,document,'script','dataLayer','' @ [sq] @ gtm @ [sq] @ '');</script>'' @ [nl] @
     ''<!-- End Google Tag Manager -->''"

definition gtmNoscript :: "string \<Rightarrow> string" where
  "gtmNoscript gtm =
     ''<!-- Google Tag Manager (noscript) -->'' @ [nl] @
     ''<noscript><iframe src='' @ [dq] @ ''https://www.googletagmanager.com/ns.html?id='' @ gtm @ [dq] @ [nl] @
     ''height='' @ [dq] @ ''0'' @ [dq] @ '' width='' @ [dq] @ ''0'' @ [dq] @
     '' style='' @ [dq] @ ''display:none;visibility:hidden'' @ [dq] @ ''></iframe></noscript>'' @ [nl] @
     ''<!-- End Google Tag Manager (noscript) -->''"

definition bodyTagPattern :: string where
  "bodyTagPattern = ''(?i)<body'' @ [bsl] @ ''b[^>]*>''"

text \<open>
  The rewriting of the body in \<open>ServeHTTP\<close>: the script block goes before the first
  \<^verbatim>\<open></head>\<close>, the noscript block at the end of the first match of the body tag
  pattern. The slice expressions of the source panic when the index is past the
  end of the string.
\<close>

definition insert_script :: "string \<Rightarrow> string \<Rightarrow> string" where
  "insert_script gtm bodyStr = Replace1 bodyStr ''</head>'' (gtmScript gtm @ ''</head>'')"

definition inject :: "stdlib \<Rightarrow> string \<Rightarrow> string \<Rightarrow> string outcome" where
  "inject env gtm bodyStr =
     (let modified = insert_script gtm bodyStr
      in case regexp_MustCompile env bodyTagPattern of
           Panic p \<Rightarrow> Panic p
         | Returns re \<Rightarrow>
             (case FindStringIndex env re modified of
                None \<Rightarrow> Returns modified
              | Some (start, insertPos) \<Rightarrow>
                  if length modified < insertPos
                  then Panic (SliceBounds_panic insertPos (length modified))
                  else Returns (take insertPos modified @ gtmNoscript gtm @
                                drop insertPos modified)))"

section \<open>The middleware\<close>

text \<open>
  What \<open>ServeHTTP\<close> does after the downstream handler has returned, up to the
  recording. \<open>Return\<close> is one of the three \<^verbatim>\<open>return\<close> statements of the gzip
  branches, which leave the function; \<open>Proceed\<close> is the end of the
  \<^verbatim>\<open>if\<close>/\<^verbatim>\<open>else\<close>, after which the recording follows.
\<close>

datatype flow = Return responseWriter | Proceed responseWriter

definition gunzip :: "stdlib \<Rightarrow> bytes \<Rightarrow> string + bytes" where
  "gunzip env bodyBytes =
     (case gzip_header_error env bodyBytes of
        Some err \<Rightarrow> Inl err
      | None \<Rightarrow> gzip_read_all env bodyBytes)"

definition respond :: "stdlib \<Rightarrow> sitemapGenerator \<Rightarrow> modifyingWriter \<Rightarrow> flow outcome" where
  "respond env sg mw =
     (let rw = ResponseWriter mw;
          contentType = Header_Get (rw_header rw) ''Content-Type'';
          contentEncoding = Header_Get (rw_header rw) ''Content-Encoding'';
          isGzipped = EqualFold contentEncoding ''gzip''
      in case (if isGzipped then gunzip env (body mw) else Inr (body mw)) of
           Inl err \<Rightarrow> Returns (Return (rw_Write (rw_WriteHeader rw (status mw)) (body mw)))
         | Inr bodyBytes \<Rightarrow>
             if gtmID sg \<noteq> [] \<and> HasPrefix (ToLower contentType) ''text/html'' \<and> status mw = 200
             then
               (case inject env (gtmID sg) bodyBytes of
                  Panic p \<Rightarrow> Panic p
                | Returns modified \<Rightarrow>
                    (case (if isGzipped then gzip_write env modified else Inr modified) of
                       Inl err \<Rightarrow>
                         Returns (Return (rw_Write (rw_WriteHeader rw (status mw)) (body mw)))
                     | Inr out \<Rightarrow>
                         Returns (Proceed (rw_Write (rw_WriteHeader
                           (rw_Header_Del rw ''Content-Length'') (status mw)) out))))
             else Returns (Proceed (rw_Write (rw_WriteHeader rw (status mw)) (body mw))))"

text \<open>The loop over \<open>sg.ignores\<close>, which stops at the first match.\<close>

fun is_ignored :: "stdlib \<Rightarrow> regexp list \<Rightarrow> string \<Rightarrow> bool" where
  "is_ignored env [] path = False"
| "is_ignored env (re # res) path = (if MatchString env re path then True else is_ignored env res path)"

definition fullURL :: "request \<Rightarrow> string" where
  "fullURL req =
     request_scheme req @ ''://'' @ req_host req @ TrimSuffix (url_path req) ''/''"

text \<open>The status of the capturing writer once the handler has returned: 200 when
  none was stored.\<close>

definition captured :: "sitemapGenerator \<Rightarrow> responseWriter \<Rightarrow> request \<Rightarrow> modifyingWriter" where
  "captured sg rw req =
     (let mw = next_ServeHTTP (next sg) \<lparr>ResponseWriter = rw, status = 0, body = []\<rparr> req
      in if status mw = 0 then mw\<lparr>status := 200\<rparr> else mw)"

text \<open>
  The result of a call of \<open>ServeHTTP\<close> that returns: the generator, the client's writer
  and the requests that were passed to the downstream handler during the call.
\<close>

record served =
  gen :: sitemapGenerator
  resp :: responseWriter
  forwarded :: "request list"

definition ServeHTTP :: "stdlib \<Rightarrow> sitemapGenerator \<Rightarrow> responseWriter \<Rightarrow> request \<Rightarrow> served outcome" where
  "ServeHTTP env sg rw req =
     (let path = url_path req in
      if path = sitemapPath sg then
        (case buildSitemapXML env sg (Some req) of
           None \<Rightarrow>
             Returns \<lparr>gen = sg, resp = http_Error env rw ''Internal Server Error'' 500,
                      forwarded = []\<rparr>
         | Some xmlContent \<Rightarrow>
             Returns \<lparr>gen = sg,
                      resp = rw_Write (rw_WriteHeader
                        (rw_Header_Set rw ''Content-Type'' ''application/xml'') 200) xmlContent,
                      forwarded = []\<rparr>)
      else if path = robotsPath sg then
        Returns \<lparr>gen = sg,
                 resp = rw_Write (rw_WriteHeader
                   (rw_Header_Set rw ''Content-Type'' ''text/plain'') 200) (buildRobotsTxt sg req),
                 forwarded = []\<rparr>
      else
        (let ignored = is_ignored env (ignores sg) path;
             mw = captured sg rw req
         in case respond env sg mw of
              Panic p \<Rightarrow> Panic p
            | Returns (Return rw1) \<Rightarrow> Returns \<lparr>gen = sg, resp = rw1, forwarded = [req]\<rparr>
            | Returns (Proceed rw1) \<Rightarrow>
                Returns \<lparr>gen = (if \<not> ignored \<and> status mw = 200
                                then sg\<lparr>paths := finsert (fullURL req) (paths sg)\<rparr> else sg),
                         resp = rw1, forwarded = [req]\<rparr>))"

text \<open>
  The states of a generator over the life of the server, with the requests served
  so far. The downstream handler may answer the same request differently from one
  call to the next, so each call runs with a behaviour \<open>h\<close> of its own. A call that
  panics leaves the generator as it was: the registry is written by the last
  statement of \<open>ServeHTTP\<close> only.
\<close>

inductive reachable :: "stdlib \<Rightarrow> request list \<Rightarrow> sitemapGenerator \<Rightarrow> bool" for env where
  reachable_New:
    "New env nxt config nm = Returns (Inr sg) \<Longrightarrow> reachable env [] sg"
| reachable_ServeHTTP:
    "reachable env reqs sg \<Longrightarrow> ServeHTTP env (sg\<lparr>next := h\<rparr>) rw req = Returns out \<Longrightarrow>
     reachable env (reqs @ [req]) (gen out)"
| reachable_Panic:
    "reachable env reqs sg \<Longrightarrow> ServeHTTP env (sg\<lparr>next := h\<rparr>) rw req = Panic p \<Longrightarrow>
     reachable env (reqs @ [req]) sg"

section \<open>What a handler did, read off its calls\<close>

text \<open>The arguments of the handler's \<open>WriteHeader\<close> calls, in order, and the bytes of
  its \<open>Write\<close> calls, concatenated.\<close>

fun header_codes :: "hcall list \<Rightarrow> int list" where
  "header_codes [] = []"
| "header_codes (H_WriteHeader code # cs) = code # header_codes cs"
| "header_codes (c # cs) = header_codes cs"

fun written_bytes :: "hcall list \<Rightarrow> bytes" where
  "written_bytes [] = []"
| "written_bytes (H_Write b # cs) = b @ written_bytes cs"
| "written_bytes (c # cs) = written_bytes cs"

section \<open>An instance of the standard library for the examples\<close>

text \<open>
  The examples below run on \<open>example_stdlib\<close>, which answers as Go's library does on
  the inputs they use: the pattern \<^verbatim>\<open>(\<close> does not compile and the other patterns of
  the examples do; the pattern \<^verbatim>\<open>^/admin/.*\<close> matches the paths that start with
  \<^verbatim>\<open>/admin/\<close>, and no built-in pattern matches \<^verbatim>\<open>/products\<close>, \<^verbatim>\<open>/products/\<close> or
  \<^verbatim>\<open>/a//\<close>; the bodies of the examples have no body tag, so \<open>FindStringIndex\<close> finds
  none; a body that does not start with the bytes 1f 8b of a gzip header is refused
  by \<^verbatim>\<open>gzip.NewReader\<close>; a text without markup characters is its own escaped form.
  No example reaches the reading or the writing of a gzip stream, or \<^verbatim>\<open>http.Error\<close>.
\<close>

definition example_stdlib :: stdlib where
  "example_stdlib =
     \<lparr>re_syntax_error =
        (\<lambda>p. if p = ''('' then Some ''error parsing regexp: missing closing ): `(`'' else None),
      re_match = (\<lambda>p s. p = ''^/admin/.*'' \<and> prefix ''/admin/'' s),
      re_find_index = (\<lambda>p s. None),
      gzip_header_error =
        (\<lambda>b. if take 2 b = [CHR 0x1F, CHR 0x8B] then None else Some ''gzip: invalid header''),
      gzip_read_all = (\<lambda>b. Inl ''unexpected EOF''),
      gzip_write = (\<lambda>b. Inl ''short write''),
      xml_error = (\<lambda>u. None),
      xml_EscapeText = (\<lambda>s. s),
      http_Error = (\<lambda>w msg code.
        rw_Write (rw_WriteHeader (rw_Header_Set w ''Content-Type'' ''text/plain; charset=utf-8'') code)
          (msg @ [nl])),
      time_now = ''2024-01-01T00:00:00Z''\<rparr>"

definition example_request :: "string \<Rightarrow> request" where
  "example_request path =
     \<lparr>url_path = path, url_scheme = [], req_host = ''example.com'',
      req_header = (\<lambda>k. [])(''X-Forwarded-Proto'' := [''https''])\<rparr>"

definition empty_writer :: responseWriter where
  "empty_writer = \<lparr>rw_header = (\<lambda>k. []), rw_calls = []\<rparr>"

definition example_generator :: "handler \<Rightarrow> string \<Rightarrow> sitemapGenerator" where
  "example_generator h gtm =
     \<lparr>next = h, name = ''seo'', sitemapPath = ''/sitemap.xml'', robotsPath = ''/robots.txt'',
      ignores = map Regexp (''^/admin/.*'' # defaultPatterns), paths = {||}, gtmID = gtm\<rparr>"

section \<open>The document and the rewritten body, as the specification describes them\<close>


text \<open>
  The text of the document: the XML declaration, the root element \<^verbatim>\<open>urlset\<close> with its
  namespace attribute, and one \<^verbatim>\<open>url\<close> element for each entry, with the children
  \<^verbatim>\<open>loc\<close>, \<^verbatim>\<open>lastmod\<close> and \<^verbatim>\<open>priority\<close>, indented by two spaces for each level.
\<close>

definition spec_url_element :: "string \<Rightarrow> string \<Rightarrow> string \<Rightarrow> string" where
  "spec_url_element loc_text lastmod_text priority_text =
     [CHR 0x0A] @ ''  <url>'' @
     [CHR 0x0A] @ ''    <loc>'' @ loc_text @ ''</loc>'' @
     [CHR 0x0A] @ ''    <lastmod>'' @ lastmod_text @ ''</lastmod>'' @
     [CHR 0x0A] @ ''    <priority>'' @ priority_text @ ''</priority>'' @
     [CHR 0x0A] @ ''  </url>''"

definition spec_sitemap_document :: "string \<Rightarrow> string list \<Rightarrow> string" where
  "spec_sitemap_document xmlns_text elements =
     ''<?xml version='' @ [CHR 0x22] @ ''1.0'' @ [CHR 0x22] @
     '' encoding='' @ [CHR 0x22] @ ''UTF-8'' @ [CHR 0x22] @ ''?>'' @ [CHR 0x0A] @
     ''<urlset xmlns='' @ [CHR 0x22] @ xmlns_text @ [CHR 0x22] @ ''>'' @
     concat elements @ (if elements = [] then [] else [CHR 0x0A]) @ ''</urlset>''"

text \<open>
  The second insertion of the rewrite: the noscript block goes in at the end of the
  first match of the body tag pattern in the text that already holds the script
  block; a text without a match is left as it is.
\<close>

definition insert_noscript :: "stdlib \<Rightarrow> string \<Rightarrow> string \<Rightarrow> string" where
  "insert_noscript env gtm modified =
     (case re_find_index env bodyTagPattern modified of
        None \<Rightarrow> modified
      | Some (start, insertPos) \<Rightarrow>
          take insertPos modified @ gtmNoscript gtm @ drop insertPos modified)"

text \<open>
  A second instance of the library for the examples, which finds a body tag: on a
  text whose only body tag is written \<^verbatim>\<open><body>\<close>, the first match of the body tag
  pattern is the first place where these six bytes stand.
\<close>

fun find_literal :: "string \<Rightarrow> string \<Rightarrow> nat \<Rightarrow> (nat \<times> nat) option" where
  "find_literal lit [] n = (if lit = [] then Some (n, n) else None)"
| "find_literal lit (c # s) n =
     (if prefix lit (c # s) then Some (n, n + length lit) else find_literal lit s (Suc n))"

definition example_stdlib_body :: stdlib where
  "example_stdlib_body =
     example_stdlib\<lparr>re_find_index := (\<lambda>p s. find_literal ''<body>'' s 0)\<rparr>"

section \<open>The capturing writer: status and body\<close>

lemma final_status_snoc:
  "(let s = status (foldl mw_call w (cs @ [c])) in if s = 0 then 200 else s) =
     (case c of
        H_WriteHeader code \<Rightarrow> (if code = 0 then 200 else code)
      | _ \<Rightarrow> (let s = status (foldl mw_call w cs) in if s = 0 then 200 else s))"
  by (cases c) (simp_all add: mw_Write_def mw_WriteHeader_def Let_def)

lemma header_codes_snoc:
  "header_codes (cs @ [c]) =
     header_codes cs @ (case c of H_WriteHeader code \<Rightarrow> [code] | _ \<Rightarrow> [])"
  by (induction cs rule: header_codes.induct) (auto split: hcall.splits)

lemma written_bytes_snoc:
  "written_bytes (cs @ [c]) = written_bytes cs @ (case c of H_Write b \<Rightarrow> b | _ \<Rightarrow> [])"
  by (induction cs rule: written_bytes.induct) (auto split: hcall.splits)

lemma final_status_codes:
  "status w = 0 \<Longrightarrow>
   (let s = status (foldl mw_call w cs) in if s = 0 then 200 else s) =
     (if header_codes cs = [] \<or> last (header_codes cs) = 0 then 200
      else last (header_codes cs))"
proof (induction cs rule: rev_induct)
  case Nil
  then show ?case by simp
next
  case (snoc c cs)
  show ?case
    unfolding final_status_snoc header_codes_snoc using snoc
    by (cases c) simp_all
qed

lemma body_foldl: "body (foldl mw_call w cs) = body w @ written_bytes cs"
proof (induction cs rule: rev_induct)
  case Nil
  then show ?case by simp
next
  case (snoc c cs)
  then show ?case
    unfolding written_bytes_snoc
    by (cases c) (simp_all add: mw_Write_def mw_WriteHeader_def Let_def)
qed

lemma calls_foldl: "rw_calls (ResponseWriter (foldl mw_call w cs)) = rw_calls (ResponseWriter w)"
proof (induction cs rule: rev_induct)
  case Nil
  then show ?case by simp
next
  case (snoc c cs)
  then show ?case
    by (cases c)
      (simp_all add: mw_Write_def mw_WriteHeader_def Let_def rw_Header_Set_def
        rw_Header_Add_def rw_Header_Del_def)
qed

lemma captured_body: "body (captured sg rw req) = written_bytes (next sg req)"
  by (simp add: captured_def next_ServeHTTP_def Let_def body_foldl)

lemma captured_rw_calls: "rw_calls (ResponseWriter (captured sg rw req)) = rw_calls rw"
  by (simp add: captured_def next_ServeHTTP_def Let_def calls_foldl)

text \<open>
  Claim C10, as amended. The status that \<open>ServeHTTP\<close> reads from the capturing writer
  for the choice between rewriting and passing through, for the status line and
  for the recording is the argument of the last \<open>WriteHeader\<close> call of the handler
  when that argument is not 0: a later call overrides an earlier one, also after
  bytes were written. It is 200 when the handler never calls \<open>WriteHeader\<close>, and
  also when the argument of its last call is 0, the value that stands for a
  status not yet set.
\<close>

theorem captured_status:
  "status (captured sg rw req) =
     (if header_codes (next sg req) = [] \<or> last (header_codes (next sg req)) = 0 then 200
      else last (header_codes (next sg req)))"
  using final_status_codes [of "\<lparr>ResponseWriter = rw, status = 0, body = []\<rparr>" "next sg req"]
  by (auto simp add: captured_def next_ServeHTTP_def Let_def)

text \<open>
  Claim C10 as it is stated fails for a handler whose last call is \<open>WriteHeader(0)\<close>:
  the status used is 200, not the argument of the call.
\<close>

theorem WriteHeader_zero_counterexample:
  "header_codes (next (example_generator (\<lambda>r. [H_WriteHeader 404, H_WriteHeader 0]) [])
      (example_request ''/products'')) = [404, 0]
   \<and> status (captured (example_generator (\<lambda>r. [H_WriteHeader 404, H_WriteHeader 0]) [])
        empty_writer (example_request ''/products'')) = 200
   \<and> status (captured (example_generator (\<lambda>r. [H_WriteHeader 404, H_WriteHeader 0]) [])
        empty_writer (example_request ''/products''))
      \<noteq> last (header_codes (next (example_generator (\<lambda>r. [H_WriteHeader 404, H_WriteHeader 0]) [])
            (example_request ''/products'')))"
  by (simp add: captured_def next_ServeHTTP_def example_generator_def mw_WriteHeader_def)

section \<open>The robots builder\<close>

text \<open>
  Claim C7. For every scheme, host and sitemap path the robots builder returns the
  line \<^verbatim>\<open>User-agent: *\<close> and the line \<^verbatim>\<open>Sitemap: <scheme>://<host><sitemapPath>\<close>, each ended
  by a newline; for the host \<^verbatim>\<open>example.com\<close>, the scheme \<^verbatim>\<open>https\<close> and the path
  \<^verbatim>\<open>/sitemap.xml\<close> that is the text of the specification.
\<close>

theorem buildRobotsTxt_output:
  "buildRobotsTxt sg req =
     ''User-agent: *'' @ [CHR 0x0A] @
     ''Sitemap: '' @ request_scheme req @ ''://'' @ req_host req @ sitemapPath sg @ [CHR 0x0A]
   \<and> request_scheme (example_request p) = ''https''
   \<and> buildRobotsTxt (example_generator h gtm) (example_request p) =
     ''User-agent: *'' @ [CHR 0x0A] @ ''Sitemap: https://example.com/sitemap.xml'' @ [CHR 0x0A]"
  by (simp add: buildRobotsTxt_def nl_def example_generator_def example_request_def
      request_scheme_def Header_Get_def)

section \<open>Requests for the sitemap and for robots.txt\<close>

text \<open>
  Claim C9. A request whose path is the sitemap path or the robots path is answered
  by the middleware: the call returns, no request was passed to the downstream
  handler, the generator and with it the registry are as before, and the answer is
  the same whatever the downstream handler is.
\<close>

theorem special_paths_answered_locally:
  assumes "url_path req = sitemapPath sg \<or> url_path req = robotsPath sg"
  shows "\<exists>out. ServeHTTP env sg rw req = Returns out \<and> gen out = sg \<and>
           paths (gen out) = paths sg \<and> forwarded out = [] \<and>
           (\<forall>h. ServeHTTP env (sg\<lparr>next := h\<rparr>) rw req = Returns (out\<lparr>gen := sg\<lparr>next := h\<rparr>\<rparr>))"
  using assms
  by (auto simp add: ServeHTTP_def Let_def buildSitemapXML_def buildRobotsTxt_def
      split: option.splits sum.splits)

theorem special_paths_witness:
  "(url_path (example_request ''/robots.txt'') =
      sitemapPath (example_generator (\<lambda>r. [H_Write ''x'']) [])
    \<or> url_path (example_request ''/robots.txt'') =
      robotsPath (example_generator (\<lambda>r. [H_Write ''x'']) []))
   \<and> (\<exists>out. ServeHTTP example_stdlib (example_generator (\<lambda>r. [H_Write ''x'']) []) empty_writer
               (example_request ''/robots.txt'') = Returns out
          \<and> gen out = example_generator (\<lambda>r. [H_Write ''x'']) [] \<and> forwarded out = [])"
proof -
  have h: "url_path (example_request ''/robots.txt'') =
      sitemapPath (example_generator (\<lambda>r. [H_Write ''x'']) [])
    \<or> url_path (example_request ''/robots.txt'') =
      robotsPath (example_generator (\<lambda>r. [H_Write ''x'']) [])"
    by (simp add: example_request_def example_generator_def)
  show ?thesis
    using h special_paths_answered_locally [OF h, of example_stdlib empty_writer] by blast
qed

section \<open>Forwarded requests: what the client receives\<close>

lemma respond_passthrough:
  assumes "gtmID sg = [] \<or>
           \<not> HasPrefix (ToLower (Header_Get (rw_header (ResponseWriter mw)) ''Content-Type''))
               ''text/html'' \<or>
           status mw \<noteq> 200"
  shows "\<exists>f. (f = Return \<or> f = Proceed) \<and>
           respond env sg mw =
             Returns (f (rw_Write (rw_WriteHeader (ResponseWriter mw) (status mw)) (body mw)))"
  using assms
  by (auto simp add: respond_def Let_def split: sum.splits)

text \<open>
  Claim C2, as amended. A request whose path is neither the sitemap path nor the
  robots path is passed to the downstream handler. When no analytics ID is
  configured, or the Content-Type of the response, put in lower case, does not
  start with \<^verbatim>\<open>text/html\<close>, or the status is not 200, the middleware makes two calls on
  the client's writer:
  \<open>WriteHeader\<close> with the status, then \<open>Write\<close> with the bytes the handler wrote, in
  the order it wrote them. The headers are those the handler left. Nothing is
  assumed of the Content-Encoding: the same holds for a gzip body, whether it can be
  decompressed or not.
\<close>

theorem passthrough_bytes:
  assumes "url_path req \<noteq> sitemapPath sg" and "url_path req \<noteq> robotsPath sg"
    and "gtmID sg = [] \<or>
         \<not> HasPrefix (ToLower (Header_Get (rw_header (ResponseWriter (captured sg rw req)))
               ''Content-Type'')) ''text/html'' \<or>
         status (captured sg rw req) \<noteq> 200"
  shows "\<exists>out. ServeHTTP env sg rw req = Returns out \<and> forwarded out = [req] \<and>
           rw_header (resp out) = rw_header (ResponseWriter (captured sg rw req)) \<and>
           rw_calls (resp out) =
             rw_calls rw @ [RW_WriteHeader (status (captured sg rw req)),
                            RW_Write (written_bytes (next sg req))]"
proof -
  obtain f where f: "f = Return \<or> f = Proceed" and
    r: "respond env sg (captured sg rw req) =
          Returns (f (rw_Write (rw_WriteHeader (ResponseWriter (captured sg rw req))
            (status (captured sg rw req))) (body (captured sg rw req))))"
    using respond_passthrough [OF assms(3)] by blast
  from f show ?thesis
    using assms(1,2) r
    by (auto simp add: ServeHTTP_def Let_def captured_body captured_rw_calls
        rw_Write_def rw_WriteHeader_def)
qed

theorem passthrough_witness:
  "ServeHTTP example_stdlib
     (example_generator
        (\<lambda>r. [H_Set ''Content-Type'' ''application/json'', H_WriteHeader 201, H_Write ''{}''])
        ''GTM-1'')
     empty_writer (example_request ''/products'') =
   Returns \<lparr>gen = example_generator
       (\<lambda>r. [H_Set ''Content-Type'' ''application/json'', H_WriteHeader 201, H_Write ''{}''])
       ''GTM-1'',
     resp = \<lparr>rw_header = (\<lambda>k. [])(''Content-Type'' := [''application/json'']),
              rw_calls = [RW_WriteHeader 201, RW_Write ''{}'']\<rparr>,
     forwarded = [example_request ''/products'']\<rparr>"
proof -
  let ?h = "\<lambda>r::request.
    [H_Set ''Content-Type'' ''application/json'', H_WriteHeader 201, H_Write ''{}'']"
  let ?sg = "example_generator ?h ''GTM-1''"
  let ?req = "example_request ''/products''"
  have c: "captured ?sg empty_writer ?req =
      \<lparr>ResponseWriter =
         \<lparr>rw_header = (\<lambda>k. [])(''Content-Type'' := [''application/json'']), rw_calls = []\<rparr>,
       status = 201, body = ''{}''\<rparr>"
    by (simp add: captured_def next_ServeHTTP_def example_generator_def empty_writer_def
        mw_Write_def mw_WriteHeader_def rw_Header_Set_def Header_Set_def Let_def)
  have 1: "url_path ?req \<noteq> sitemapPath ?sg" "url_path ?req \<noteq> robotsPath ?sg"
    by (simp_all add: example_request_def example_generator_def)
  have 3: "gtmID ?sg = [] \<or>
         \<not> HasPrefix (ToLower (Header_Get (rw_header (ResponseWriter
               (captured ?sg empty_writer ?req))) ''Content-Type'')) ''text/html'' \<or>
         status (captured ?sg empty_writer ?req) \<noteq> 200"
    unfolding c by simp
  obtain out where o: "ServeHTTP example_stdlib ?sg empty_writer ?req = Returns out"
     "forwarded out = [?req]"
     "rw_header (resp out) = rw_header (ResponseWriter (captured ?sg empty_writer ?req))"
     "rw_calls (resp out) =
        rw_calls empty_writer @ [RW_WriteHeader (status (captured ?sg empty_writer ?req)),
                                 RW_Write (written_bytes (next ?sg ?req))]"
    using passthrough_bytes [OF 1 3, of example_stdlib] by blast
  have g: "gen out = ?sg"
    using o(1) 1 by (auto simp add: ServeHTTP_def Let_def c split: outcome.splits flow.splits)
  have "out = \<lparr>gen = ?sg,
     resp = \<lparr>rw_header = (\<lambda>k. [])(''Content-Type'' := [''application/json'']),
              rw_calls = [RW_WriteHeader 201, RW_Write ''{}'']\<rparr>,
     forwarded = [?req]\<rparr>"
    using o(2,3,4) g unfolding c
    by (cases out, cases "resp out") (simp add: example_generator_def empty_writer_def)
  then show ?thesis using o(1) by simp
qed

section \<open>Recording\<close>

text \<open>
  What holds of the recording on every path: a forwarded request adds at most its
  own URL, and only when no ignore pattern matched and the status is 200; when the
  response is not gzip-encoded, that URL is recorded exactly then.
\<close>

lemma recording_sound:
  assumes "url_path req \<noteq> sitemapPath sg" and "url_path req \<noteq> robotsPath sg"
    and "ServeHTTP env sg rw req = Returns out"
  shows "gen out = sg \<or>
         (\<not> is_ignored env (ignores sg) (url_path req) \<and> status (captured sg rw req) = 200 \<and>
          gen out = sg\<lparr>paths := finsert (fullURL req) (paths sg)\<rparr>)"
  using assms
  by (auto simp add: ServeHTTP_def Let_def split: outcome.splits flow.splits if_splits)

lemma recording_without_gzip:
  assumes "url_path req \<noteq> sitemapPath sg" and "url_path req \<noteq> robotsPath sg"
    and "\<not> EqualFold (Header_Get (rw_header (ResponseWriter (captured sg rw req)))
           ''Content-Encoding'') ''gzip''"
    and "ServeHTTP env sg rw req = Returns out"
  shows "gen out =
           (if \<not> is_ignored env (ignores sg) (url_path req) \<and> status (captured sg rw req) = 200
            then sg\<lparr>paths := finsert (fullURL req) (paths sg)\<rparr> else sg)"
  using assms
  by (auto simp add: ServeHTTP_def respond_def Let_def split: outcome.splits flow.splits if_splits)

text \<open>
  Claim C1 does not hold of the code for a response with \<^verbatim>\<open>Content-Encoding: gzip\<close>
  whose body \<^verbatim>\<open>gzip.NewReader\<close> or \<^verbatim>\<open>io.ReadAll\<close> refuses: \<open>ServeHTTP\<close> writes the status
  and the buffered bytes and returns at once, before the statement that records
  the URL. The generator is unchanged, whatever the status and whether or not an
  ignore pattern matched.
\<close>

theorem gzip_failure_not_recorded:
  assumes "url_path req \<noteq> sitemapPath sg" and "url_path req \<noteq> robotsPath sg"
    and "EqualFold (Header_Get (rw_header (ResponseWriter (captured sg rw req)))
           ''Content-Encoding'') ''gzip''"
    and "gunzip env (body (captured sg rw req)) = Inl err"
  shows "ServeHTTP env sg rw req =
           Returns \<lparr>gen = sg,
             resp = rw_Write (rw_WriteHeader (ResponseWriter (captured sg rw req))
                      (status (captured sg rw req))) (body (captured sg rw req)),
             forwarded = [req]\<rparr>"
  using assms by (simp add: ServeHTTP_def respond_def Let_def)

text \<open>
  The request \<^verbatim>\<open>/products\<close>, which no ignore pattern matches, answered with the
  default status 200, the header \<^verbatim>\<open>Content-Encoding: gzip\<close> and the body \<^verbatim>\<open>hello\<close>,
  which is not a gzip stream: the registry is empty before and after.
\<close>

theorem gzip_failure_example:
  "\<not> is_ignored example_stdlib
       (ignores (example_generator
          (\<lambda>r. [H_Set ''Content-Encoding'' ''gzip'', H_Write ''hello'']) [])) ''/products''
   \<and> status (captured (example_generator
          (\<lambda>r. [H_Set ''Content-Encoding'' ''gzip'', H_Write ''hello'']) [])
        empty_writer (example_request ''/products'')) = 200
   \<and> ServeHTTP example_stdlib
        (example_generator (\<lambda>r. [H_Set ''Content-Encoding'' ''gzip'', H_Write ''hello'']) [])
        empty_writer (example_request ''/products'') =
      Returns \<lparr>gen = example_generator
          (\<lambda>r. [H_Set ''Content-Encoding'' ''gzip'', H_Write ''hello'']) [],
        resp = \<lparr>rw_header = (\<lambda>k. [])(''Content-Encoding'' := [''gzip'']),
                 rw_calls = [RW_WriteHeader 200, RW_Write ''hello'']\<rparr>,
        forwarded = [example_request ''/products'']\<rparr>
   \<and> paths (example_generator
        (\<lambda>r. [H_Set ''Content-Encoding'' ''gzip'', H_Write ''hello'']) []) = {||}"
proof -
  let ?h = "\<lambda>r::request. [H_Set ''Content-Encoding'' ''gzip'', H_Write ''hello'']"
  let ?sg = "example_generator ?h []"
  let ?req = "example_request ''/products''"
  have c: "captured ?sg empty_writer ?req =
      \<lparr>ResponseWriter =
         \<lparr>rw_header = (\<lambda>k. [])(''Content-Encoding'' := [''gzip'']), rw_calls = []\<rparr>,
       status = 200, body = ''hello''\<rparr>"
    by (simp add: captured_def next_ServeHTTP_def example_generator_def empty_writer_def
        mw_Write_def rw_Header_Set_def Header_Set_def Let_def)
  have 1: "url_path ?req \<noteq> sitemapPath ?sg" "url_path ?req \<noteq> robotsPath ?sg"
    by (simp_all add: example_request_def example_generator_def)
  have 2: "EqualFold (Header_Get (rw_header (ResponseWriter (captured ?sg empty_writer ?req)))
             ''Content-Encoding'') ''gzip''"
    unfolding c by (simp add: EqualFold_def Header_Get_def)
  have 3: "gunzip example_stdlib (body (captured ?sg empty_writer ?req)) =
             Inl ''gzip: invalid header''"
    unfolding c by (simp add: gunzip_def example_stdlib_def)
  have 4: "\<not> is_ignored example_stdlib (ignores ?sg) ''/products''"
    by (simp add: example_generator_def defaultPatterns_def example_stdlib_def)
  show ?thesis
    using gzip_failure_not_recorded [OF 1 2 3] 4
    unfolding c by (simp add: rw_Write_def rw_WriteHeader_def) (simp add: example_generator_def)
qed

section \<open>The sitemap builder\<close>

lemma filter_infos_eq:
  "filter_infos base infos acc hr =
     (acc @ filter (\<lambda>u. HasPrefix u (base @ ''/'') \<or> u = base) infos, hr \<or> base \<in> set infos)"
  by (induction infos arbitrary: acc hr) auto

lemma urls_with_request:
  "URLs (build_urlset infos (Some req) lm) =
     map (\<lambda>info. \<lparr>Loc = info, Lastmod = lm,
            Priority = (if info = request_base req then 1 else 0.8)\<rparr>)
       (sort (filter (\<lambda>u. HasPrefix u (request_base req @ ''/'') \<or> u = request_base req) infos @
             (if request_base req \<in> set infos then [] else [request_base req])))"
  by (simp add: build_urlset_def filter_infos_eq Let_def request_base_def)

lemma locs_with_request:
  "map Loc (URLs (build_urlset infos (Some req) lm)) =
     sort (filter (\<lambda>u. HasPrefix u (request_base req @ ''/'') \<or> u = request_base req) infos @
           (if request_base req \<in> set infos then [] else [request_base req]))"
  by (simp add: urls_with_request comp_def)

text \<open>The order in which Go ranges over the registry does not show in the \<open>urlset\<close>:
  two snapshots of the same set of keys give the same result.\<close>

lemma build_urlset_order:
  assumes "distinct infos'" and "distinct infos" and "set infos' = set infos"
  shows "build_urlset infos' (Some req) lm = build_urlset infos (Some req) lm"
proof -
  let ?P = "\<lambda>u. HasPrefix u (request_base req @ ''/'') \<or> u = request_base req"
  let ?r = "\<lambda>xs. if request_base req \<in> set xs then [] else [request_base req]"
  have "sort (filter ?P infos' @ ?r infos') = sort (filter ?P infos @ ?r infos)"
    using assms by (intro sorted_distinct_set_unique) auto
  then have "URLs (build_urlset infos' (Some req) lm) = URLs (build_urlset infos (Some req) lm)"
    unfolding urls_with_request by simp
  then show ?thesis
    by (simp add: build_urlset_def Let_def split: prod.splits)
qed

text \<open>The \<open>loc\<close> values of the \<open>urlset\<close> built from the registry for a request: their
  set, and that they are distinct and in ascending order.\<close>

lemma sitemap_url_set:
  "set (map Loc (URLs (build_urlset (sorted_list_of_fset (paths sg)) (Some req) lm))) =
     {u. u |\<in>| paths sg \<and> (u = request_base req \<or> prefix (request_base req @ ''/'') u)}
       \<union> {request_base req}
   \<and> distinct (map Loc (URLs (build_urlset (sorted_list_of_fset (paths sg)) (Some req) lm)))
   \<and> sorted (map Loc (URLs (build_urlset (sorted_list_of_fset (paths sg)) (Some req) lm)))"
  unfolding locs_with_request
  by (auto simp add: HasPrefix_def sorted_list_of_fset.rep_eq)

lemma FormatFloat_one: "FormatFloat 1 = ''1''"
  by (simp add: FormatFloat_def decimal.simps digit_def)

lemma FormatFloat_four_fifths: "FormatFloat (4 / 5) = ''0.8''"
  by (simp add: FormatFloat_def decimal.simps digit_def)

text \<open>The priorities of the \<open>urlset\<close>, and the text of each as the encoder writes it.\<close>

lemma urlset_priorities:
  "map Priority (URLs (build_urlset infos (Some req) lm)) =
     map (\<lambda>loc. if loc = request_base req then 1.0 else 0.8)
       (map Loc (URLs (build_urlset infos (Some req) lm)))
   \<and> map priority_element (URLs (build_urlset infos (Some req) lm)) =
     map (\<lambda>loc. if loc = request_base req then ''<priority>1</priority>''
                 else ''<priority>0.8</priority>'')
       (map Loc (URLs (build_urlset infos (Some req) lm)))"
  unfolding urls_with_request
  by (simp add: comp_def priority_element_def FormatFloat_one FormatFloat_four_fifths
      if_distrib cong: if_cong)





lemma marshal_url_text:
  "marshal_url env u =
     spec_url_element (xml_EscapeText env (Loc u)) (xml_EscapeText env (Lastmod u))
       (FormatFloat (Priority u))"
  by (simp add: marshal_url_def spec_url_element_def priority_element_def nl_def)

lemma Xmlns_build_urlset:
  "Xmlns (build_urlset infos req lm) = ''http://www.sitemaps.org/schemas/sitemap/0.9''"
  by (simp add: build_urlset_def Let_def split: prod.splits)

lemma buildSitemapXML_text:
  "buildSitemapXML env sg req =
     (if xml_error env (build_urlset (sorted_list_of_fset (paths sg)) req (time_now env)) = None
      then Some (spec_sitemap_document
             (xml_EscapeText env ''http://www.sitemaps.org/schemas/sitemap/0.9'')
             (map (marshal_url env)
                (URLs (build_urlset (sorted_list_of_fset (paths sg)) req (time_now env)))))
      else None)"
  by (auto simp add: buildSitemapXML_def xml_MarshalIndent_def spec_sitemap_document_def
      xml_Header_def Xmlns_build_urlset nl_def dq_def Let_def)


text \<open>The registry holds a URL of the host of the request and a URL of another host:
  the document lists the first and the synthesized root.\<close>

lemma sitemap_document_example:
  "buildSitemapXML example_stdlib
     ((example_generator (\<lambda>r. []) [])
        \<lparr>paths := {|''https://example.com/x'', ''https://other.com/y''|}\<rparr>)
     (Some (example_request ''/sitemap.xml'')) =
   Some (spec_sitemap_document ''http://www.sitemaps.org/schemas/sitemap/0.9''
     [spec_url_element ''https://example.com'' ''2024-01-01T00:00:00Z'' ''1'',
      spec_url_element ''https://example.com/x'' ''2024-01-01T00:00:00Z'' ''0.8''])"
proof -
  have b: "request_base (example_request ''/sitemap.xml'') = ''https://example.com''"
    by (simp add: request_base_def request_scheme_def example_request_def Header_Get_def)
  have l: "sorted_list_of_fset {|''https://example.com/x'', ''https://other.com/y''|} =
      [''https://example.com/x'', ''https://other.com/y'']"
    by code_simp
  have s: "sort [''https://example.com/x'', ''https://example.com''] =
      [''https://example.com'', ''https://example.com/x'']"
    by code_simp
  have u: "URLs (build_urlset [''https://example.com/x'', ''https://other.com/y'']
      (Some (example_request ''/sitemap.xml'')) ''2024-01-01T00:00:00Z'') =
    [\<lparr>Loc = ''https://example.com'', Lastmod = ''2024-01-01T00:00:00Z'', Priority = 1\<rparr>,
     \<lparr>Loc = ''https://example.com/x'', Lastmod = ''2024-01-01T00:00:00Z'', Priority = 0.8\<rparr>]"
    unfolding urls_with_request b
    by (simp add: HasPrefix_def s del: sort_key_simps)
  have e: "xml_error example_stdlib x = None" "xml_EscapeText example_stdlib t = t"
    "time_now example_stdlib = ''2024-01-01T00:00:00Z''" for x t
    by (simp_all add: example_stdlib_def)
  show ?thesis
    unfolding buildSitemapXML_text
    by (simp add: l e u marshal_url_text FormatFloat_one FormatFloat_four_fifths)
qed

text \<open>
  Claim C5, as amended. In the document that \<open>buildSitemapXML\<close> returns for a request,
  the entry whose \<open>loc\<close> is \<open>base\<close> has the priority 1.0 and every other entry the
  priority 0.8. The text of the priority element is the shortest decimal form of the
  value: \<^verbatim>\<open>1\<close> for the entry of \<open>base\<close>, without a fractional digit, and \<^verbatim>\<open>0.8\<close> for every
  other entry.
\<close>

theorem sitemap_document_priorities:
  "map Priority (URLs (build_urlset (sorted_list_of_fset (paths sg)) (Some req) (time_now env))) =
     map (\<lambda>u. if Loc u = request_base req then 1.0 else 0.8)
       (URLs (build_urlset (sorted_list_of_fset (paths sg)) (Some req) (time_now env)))
   \<and> buildSitemapXML env sg (Some req) =
     (if xml_error env (build_urlset (sorted_list_of_fset (paths sg)) (Some req) (time_now env)) = None
      then Some (spec_sitemap_document
             (xml_EscapeText env ''http://www.sitemaps.org/schemas/sitemap/0.9'')
             (map (\<lambda>u. spec_url_element (xml_EscapeText env (Loc u))
                      (xml_EscapeText env (Lastmod u))
                      (if Loc u = request_base req then ''1'' else ''0.8''))
                (URLs (build_urlset (sorted_list_of_fset (paths sg)) (Some req) (time_now env)))))
      else None)"
proof -
  let ?U = "build_urlset (sorted_list_of_fset (paths sg)) (Some req) (time_now env)"
  have p: "\<forall>u\<in>set (URLs ?U). Priority u = (if Loc u = request_base req then 1 else 0.8)"
    unfolding urls_with_request by auto
  then have 1: "map Priority (URLs ?U) =
     map (\<lambda>u. if Loc u = request_base req then 1.0 else 0.8) (URLs ?U)"
    by simp
  have m: "map (marshal_url env) (URLs ?U) =
      map (\<lambda>u. spec_url_element (xml_EscapeText env (Loc u)) (xml_EscapeText env (Lastmod u))
                      (if Loc u = request_base req then ''1'' else ''0.8'')) (URLs ?U)"
  proof (rule map_cong [OF refl])
    fix u assume "u \<in> set (URLs ?U)"
    with p have "Priority u = (if Loc u = request_base req then 1 else 0.8)" by blast
    then show "marshal_url env u =
        spec_url_element (xml_EscapeText env (Loc u)) (xml_EscapeText env (Lastmod u))
          (if Loc u = request_base req then ''1'' else ''0.8'')"
      by (simp add: marshal_url_text FormatFloat_one FormatFloat_four_fifths)
  qed
  show ?thesis
    unfolding buildSitemapXML_text m using 1 by simp
qed

text \<open>
  Claim C5 as it is stated fails on the text of the priority of \<open>base\<close>: for the
  registry that holds \<^verbatim>\<open>https://example.com/products\<close> and a request to
  \<^verbatim>\<open>example.com\<close> over https, the two priority elements of the document are
  \<^verbatim>\<open><priority>1</priority>\<close> and \<^verbatim>\<open><priority>0.8</priority>\<close>.
\<close>

theorem priority_text_counterexample:
  "map Loc (URLs (build_urlset [''https://example.com/products'']
      (Some (example_request ''/sitemap.xml'')) ''2024-01-01T00:00:00Z'')) =
     [''https://example.com'', ''https://example.com/products'']
   \<and> map priority_element (URLs (build_urlset [''https://example.com/products'']
      (Some (example_request ''/sitemap.xml'')) ''2024-01-01T00:00:00Z'')) =
     [''<priority>1</priority>'', ''<priority>0.8</priority>'']
   \<and> ''<priority>1</priority>'' \<noteq> ''<priority>1.0</priority>''
   \<and> buildSitemapXML example_stdlib
       ((example_generator (\<lambda>r. []) []) \<lparr>paths := {|''https://example.com/products''|}\<rparr>)
       (Some (example_request ''/sitemap.xml'')) =
     Some (spec_sitemap_document ''http://www.sitemaps.org/schemas/sitemap/0.9''
       [spec_url_element ''https://example.com'' ''2024-01-01T00:00:00Z'' ''1'',
        spec_url_element ''https://example.com/products'' ''2024-01-01T00:00:00Z'' ''0.8''])"
proof -
  have b: "request_base (example_request ''/sitemap.xml'') = ''https://example.com''"
    by (simp add: request_base_def request_scheme_def example_request_def Header_Get_def)
  have s: "sort [''https://example.com/products'', ''https://example.com''] =
      [''https://example.com'', ''https://example.com/products'']"
    by code_simp
  have u: "URLs (build_urlset [''https://example.com/products'']
      (Some (example_request ''/sitemap.xml'')) ''2024-01-01T00:00:00Z'') =
    [\<lparr>Loc = ''https://example.com'', Lastmod = ''2024-01-01T00:00:00Z'', Priority = 1\<rparr>,
     \<lparr>Loc = ''https://example.com/products'', Lastmod = ''2024-01-01T00:00:00Z'',
      Priority = 0.8\<rparr>]"
    unfolding urls_with_request b
    by (simp add: HasPrefix_def s del: sort_key_simps)
  have l: "sorted_list_of_fset {|''https://example.com/products''|} =
      [''https://example.com/products'']"
    by (simp add: sorted_list_of_fset.rep_eq)
  have e: "xml_error example_stdlib x = None" "xml_EscapeText example_stdlib t = t"
    "time_now example_stdlib = ''2024-01-01T00:00:00Z''" for x t
    by (simp_all add: example_stdlib_def)
  have d: "buildSitemapXML example_stdlib
       ((example_generator (\<lambda>r. []) []) \<lparr>paths := {|''https://example.com/products''|}\<rparr>)
       (Some (example_request ''/sitemap.xml'')) =
     Some (spec_sitemap_document ''http://www.sitemaps.org/schemas/sitemap/0.9''
       [spec_url_element ''https://example.com'' ''2024-01-01T00:00:00Z'' ''1'',
        spec_url_element ''https://example.com/products'' ''2024-01-01T00:00:00Z'' ''0.8''])"
    unfolding buildSitemapXML_text
    by (simp add: l e u marshal_url_text FormatFloat_one FormatFloat_four_fifths)
  show ?thesis
    unfolding u using d
    by (simp add: priority_element_def FormatFloat_one FormatFloat_four_fifths)
qed

section \<open>Construction\<close>

lemma compile_ignores_ok:
  "\<forall>p\<in>set ps. re_syntax_error env p = None \<Longrightarrow>
   compile_ignores env ps acc = Inr (acc @ map Regexp ps)"
  by (induction ps arbitrary: acc) (simp_all add: regexp_Compile_def)

lemma compile_ignores_err:
  "\<exists>p\<in>set ps. re_syntax_error env p \<noteq> None \<Longrightarrow>
   \<exists>p err. p \<in> set ps \<and> re_syntax_error env p = Some err \<and>
     compile_ignores env ps acc = Inl (''invalid ignore regex '' @ p @ '': '' @ err)"
proof (induction ps arbitrary: acc)
  case Nil
  then show ?case by simp
next
  case (Cons q qs)
  show ?case
  proof (cases "re_syntax_error env q")
    case None
    with Cons.prems have "\<exists>p\<in>set qs. re_syntax_error env p \<noteq> None" by auto
    from Cons.IH [OF this, of "acc @ [Regexp q]"] None show ?thesis
      by (auto simp add: regexp_Compile_def)
  next
    case (Some e)
    then show ?thesis by (auto simp add: regexp_Compile_def)
  qed
qed

lemma compile_defaults_ok:
  "\<forall>p\<in>set ps. re_syntax_error env p = None \<Longrightarrow>
   compile_defaults env ps acc = Returns (acc @ map Regexp ps)"
  by (induction ps arbitrary: acc) (simp_all add: regexp_Compile_def regexp_MustCompile_def)

lemma example_defaults_compile:
  "\<forall>p\<in>set defaultPatterns. re_syntax_error example_stdlib p = None"
  by (simp add: defaultPatterns_def example_stdlib_def)

lemma New_example:
  "New example_stdlib h (CreateConfig\<lparr>Ignore := [''^/admin/.*'']\<rparr>) ''seo'' =
     Returns (Inr (example_generator h []))"
proof -
  have u: "\<forall>p\<in>set [''^/admin/.*'']. re_syntax_error example_stdlib p = None"
    by (simp add: example_stdlib_def)
  have ci: "compile_ignores example_stdlib [''^/admin/.*''] [] = Inr [Regexp ''^/admin/.*'']"
    using compile_ignores_ok [OF u, of "[]"] by simp
  have cd: "compile_defaults example_stdlib defaultPatterns [Regexp ''^/admin/.*''] =
      Returns (Regexp ''^/admin/.*'' # map Regexp defaultPatterns)"
    using compile_defaults_ok [OF example_defaults_compile, of "[Regexp ''^/admin/.*'']"] by simp
  show ?thesis
    by (simp add: New_def Let_def ci cd CreateConfig_def example_generator_def
        del: compile_ignores.simps compile_defaults.simps)
qed

text \<open>
  Claim C8. When a pattern of the user does not compile, \<open>New\<close> returns an error,
  the formatted message for such a pattern, and no handler. When all patterns of
  the user compile, and the built-in patterns compile as they do in Go, \<open>New\<close>
  returns a generator whose \<open>ignores\<close> are the patterns of the user, in their order,
  followed by the built-in patterns, and whose registry is empty.
\<close>

theorem New_ignore_patterns:
  "((\<exists>p\<in>set (Ignore config). re_syntax_error env p \<noteq> None) \<longrightarrow>
      (\<exists>p err. p \<in> set (Ignore config) \<and> re_syntax_error env p = Some err \<and>
         New env nxt config nm =
           Returns (Inl (''invalid ignore regex '' @ p @ '': '' @ err))))
   \<and> ((\<forall>p\<in>set (Ignore config). re_syntax_error env p = None) \<and>
       (\<forall>p\<in>set defaultPatterns. re_syntax_error env p = None) \<longrightarrow>
      (\<exists>sg. New env nxt config nm = Returns (Inr sg) \<and>
         ignores sg = map Regexp (Ignore config @ defaultPatterns) \<and> paths sg = {||}))"
proof (intro conjI impI)
  assume "\<exists>p\<in>set (Ignore config). re_syntax_error env p \<noteq> None"
  from compile_ignores_err [OF this, of "[]"]
  show "\<exists>p err. p \<in> set (Ignore config) \<and> re_syntax_error env p = Some err \<and>
         New env nxt config nm =
           Returns (Inl (''invalid ignore regex '' @ p @ '': '' @ err))"
    by (auto simp add: New_def Let_def)
next
  assume "(\<forall>p\<in>set (Ignore config). re_syntax_error env p = None) \<and>
       (\<forall>p\<in>set defaultPatterns. re_syntax_error env p = None)"
  then show "\<exists>sg. New env nxt config nm = Returns (Inr sg) \<and>
         ignores sg = map Regexp (Ignore config @ defaultPatterns) \<and> paths sg = {||}"
    by (simp add: New_def Let_def compile_ignores_ok compile_defaults_ok)
qed

theorem New_ignore_patterns_witness:
  "(\<exists>err. New example_stdlib (\<lambda>r. []) (CreateConfig\<lparr>Ignore := [''^/admin/.*'', ''('']\<rparr>) ''seo'' =
       Returns (Inl err))
   \<and> (\<exists>sg. New example_stdlib (\<lambda>r. []) (CreateConfig\<lparr>Ignore := [''^/admin/.*'']\<rparr>) ''seo'' =
         Returns (Inr sg)
       \<and> ignores sg = map Regexp (''^/admin/.*'' # defaultPatterns))"
proof -
  have 1: "\<exists>p\<in>set (Ignore (CreateConfig\<lparr>Ignore := [''^/admin/.*'', ''('']\<rparr>)).
             re_syntax_error example_stdlib p \<noteq> None"
    by (simp add: example_stdlib_def)
  have 2: "(\<forall>p\<in>set (Ignore (CreateConfig\<lparr>Ignore := [''^/admin/.*'']\<rparr>)).
              re_syntax_error example_stdlib p = None) \<and>
       (\<forall>p\<in>set defaultPatterns. re_syntax_error example_stdlib p = None)"
    using example_defaults_compile by (simp add: example_stdlib_def)
  show ?thesis
    using New_ignore_patterns [of "CreateConfig\<lparr>Ignore := [''^/admin/.*'', ''('']\<rparr>"
        example_stdlib "\<lambda>r. []" "''seo''"]
      New_ignore_patterns [of "CreateConfig\<lparr>Ignore := [''^/admin/.*'']\<rparr>"
        example_stdlib "\<lambda>r. []" "''seo''"]
      1 2
    by auto
qed

section \<open>The analytics script block\<close>

lemma Replace1_absent:
  "\<not> sublist old s \<Longrightarrow> Replace1 s old new = s"
proof (induction s)
  case Nil
  then show ?case by auto
next
  case (Cons c s)
  then show ?case by (auto simp add: sublist_Cons_right)
qed

lemma prefix_in_front:
  assumes "prefix old (pre @ old @ post)" and "pre \<noteq> []"
  shows "sublist old (pre @ butlast old)"
proof (cases "old = []")
  case True
  then show ?thesis by simp
next
  case False
  have "length old \<le> length (pre @ butlast old)"
    using assms(2) False by (cases pre) simp_all
  moreover have "pre @ old @ post = (pre @ butlast old) @ (last old # post)"
    using False by simp
  ultimately have "prefix old (pre @ butlast old)"
    using assms(1) by (metis prefix_length_prefix prefix_append prefixI append.assoc prefix_order.dual_order.refl)
  then show ?thesis by simp
qed

lemma Replace1_first:
  assumes "old \<noteq> []" and "\<not> sublist old (pre @ butlast old)"
  shows "Replace1 (pre @ old @ post) old new = pre @ new @ post"
  using assms(2)
proof (induction pre)
  case Nil
  obtain c t where o: "old = c # t" using assms(1) by (cases old) auto
  show ?case unfolding o by simp
next
  case (Cons c pre)
  have np: "\<not> prefix old ((c # pre) @ old @ post)"
    using prefix_in_front [of old "c # pre" post] Cons.prems by blast
  have "\<not> sublist old (pre @ butlast old)"
    using Cons.prems by (simp add: sublist_Cons_right)
  from Cons.IH [OF this] np show ?case by simp
qed


lemma inject_shape:
  assumes "inject env gtm bodyStr = Returns m"
  shows "m = insert_script gtm bodyStr \<or>
         (\<exists>k\<le>length (insert_script gtm bodyStr).
            m = take k (insert_script gtm bodyStr) @ gtmNoscript gtm @
                drop k (insert_script gtm bodyStr))"
proof (cases "regexp_MustCompile env bodyTagPattern")
  case (Panic p)
  then show ?thesis using assms by (simp add: inject_def)
next
  case (Returns re)
  show ?thesis
  proof (cases "FindStringIndex env re (insert_script gtm bodyStr)")
    case None
    then show ?thesis using assms Returns by (simp add: inject_def)
  next
    case (Some ab)
    obtain a k where ab: "ab = (a, k)" by (cases ab)
    from assms Returns Some ab
    have "k \<le> length (insert_script gtm bodyStr)"
      and "m = take k (insert_script gtm bodyStr) @ gtmNoscript gtm @
                drop k (insert_script gtm bodyStr)"
      by (auto simp add: inject_def Let_def split: if_splits)
    then show ?thesis by blast
  qed
qed

text \<open>
  The first insertion, on the strings. When the body is \<open>pre\<close>, \<^verbatim>\<open></head>\<close>, \<open>post\<close> and
  this is the first place where \<^verbatim>\<open></head>\<close> occurs, the result is \<open>pre\<close>, the script
  block, \<^verbatim>\<open></head>\<close>, \<open>post\<close>; a body without \<^verbatim>\<open></head>\<close> is returned as it is.
\<close>

lemma script_insertion:
  "(\<not> sublist ''</head>'' (pre @ ''</head'') \<longrightarrow>
      insert_script gtm (pre @ ''</head>'' @ post) = pre @ gtmScript gtm @ ''</head>'' @ post)
   \<and> (\<not> sublist ''</head>'' bodyStr \<longrightarrow> insert_script gtm bodyStr = bodyStr)
   \<and> (inject env gtm bodyStr = Returns m \<longrightarrow>
        m = insert_script gtm bodyStr \<or>
        (\<exists>k\<le>length (insert_script gtm bodyStr).
            m = take k (insert_script gtm bodyStr) @ gtmNoscript gtm @
                drop k (insert_script gtm bodyStr)))"
proof (intro conjI impI)
  assume "\<not> sublist ''</head>'' (pre @ ''</head'')"
  then have "\<not> sublist ''</head>'' (pre @ butlast ''</head>'')" by simp
  from Replace1_first [OF _ this, of post "gtmScript gtm @ ''</head>''"]
  show "insert_script gtm (pre @ ''</head>'' @ post) = pre @ gtmScript gtm @ ''</head>'' @ post"
    by (simp add: insert_script_def)
next
  assume "\<not> sublist ''</head>'' bodyStr"
  then show "insert_script gtm bodyStr = bodyStr"
    by (simp add: insert_script_def Replace1_absent)
next
  assume "inject env gtm bodyStr = Returns m"
  then show "m = insert_script gtm bodyStr \<or>
        (\<exists>k\<le>length (insert_script gtm bodyStr).
            m = take k (insert_script gtm bodyStr) @ gtmNoscript gtm @
                drop k (insert_script gtm bodyStr))"
    by (rule inject_shape)
qed

text \<open>The rewrite branch of \<open>respond\<close> for a body that is not gzip-encoded: the
  client gets the status 200 and the result of \<open>inject\<close>.\<close>

lemma respond_rewrite:
  assumes "gtmID sg \<noteq> []"
    and "HasPrefix (ToLower (Header_Get (rw_header (ResponseWriter mw)) ''Content-Type'')) ''text/html''"
    and "status mw = 200"
    and "\<not> EqualFold (Header_Get (rw_header (ResponseWriter mw)) ''Content-Encoding'') ''gzip''"
  shows "respond env sg mw =
     (case inject env (gtmID sg) (body mw) of
        Panic p \<Rightarrow> Panic p
      | Returns modified \<Rightarrow>
          Returns (Proceed (rw_Write (rw_WriteHeader
            (rw_Header_Del (ResponseWriter mw) ''Content-Length'') 200) modified)))"
  using assms by (simp add: respond_def Let_def split: outcome.splits)

lemma example_inject: "inject example_stdlib gtm bodyStr = Returns (insert_script gtm bodyStr)"
proof -
  have "re_syntax_error example_stdlib bodyTagPattern = None"
    by (simp add: example_stdlib_def bodyTagPattern_def)
  moreover have "re_find_index example_stdlib p s = None" for p s
    by (simp add: example_stdlib_def)
  ultimately show ?thesis
    by (simp add: inject_def Let_def regexp_MustCompile_def regexp_Compile_def)
qed

lemma insert_script_cases:
  assumes "sublist ''</head>'' bodyStr \<longrightarrow>
             bodyStr = pre @ ''</head>'' @ post \<and> \<not> sublist ''</head>'' (pre @ ''</head'')"
  shows "insert_script gtm bodyStr =
           (if sublist ''</head>'' bodyStr then pre @ gtmScript gtm @ ''</head>'' @ post
            else bodyStr)"
proof (cases "sublist ''</head>'' bodyStr")
  case True
  with assms have b: "bodyStr = pre @ ''</head>'' @ post"
    and n: "\<not> sublist ''</head>'' (pre @ butlast ''</head>'')" by simp_all
  from Replace1_first [OF _ n, of post "gtmScript gtm @ ''</head>''"] True b
  show ?thesis by (simp add: insert_script_def)
next
  case False
  then show ?thesis by (simp add: insert_script_def Replace1_absent)
qed

lemma inject_insert_noscript:
  assumes "re_syntax_error env bodyTagPattern = None"
    and "\<forall>s a k. re_find_index env bodyTagPattern s = Some (a, k) \<longrightarrow> k \<le> length s"
  shows "inject env gtm bodyStr = Returns (insert_noscript env gtm (insert_script gtm bodyStr))"
proof (cases "re_find_index env bodyTagPattern (insert_script gtm bodyStr)")
  case None
  with assms(1) show ?thesis
    by (simp add: inject_def insert_noscript_def regexp_MustCompile_def regexp_Compile_def Let_def)
next
  case (Some ab)
  obtain a k where ab: "ab = (a, k)" by (cases ab)
  with Some assms(2) have "k \<le> length (insert_script gtm bodyStr)" by blast
  with Some ab assms(1) show ?thesis
    by (simp add: inject_def insert_noscript_def regexp_MustCompile_def regexp_Compile_def Let_def)
qed

lemma respond_rewrite_decoded:
  assumes "gtmID sg \<noteq> []"
    and "HasPrefix (ToLower (Header_Get (rw_header (ResponseWriter mw)) ''Content-Type'')) ''text/html''"
    and "status mw = 200"
    and "(if EqualFold (Header_Get (rw_header (ResponseWriter mw)) ''Content-Encoding'') ''gzip''
          then gunzip env (body mw) else Inr (body mw)) = Inr bodyStr"
    and "inject env (gtmID sg) bodyStr = Returns final"
  shows "\<exists>f hs. (f = Return \<or> f = Proceed) \<and>
           respond env sg mw =
             Returns (f \<lparr>rw_header = hs,
                rw_calls = rw_calls (ResponseWriter mw) @
                  [RW_WriteHeader 200,
                   RW_Write (if EqualFold (Header_Get (rw_header (ResponseWriter mw))
                                  ''Content-Encoding'') ''gzip''
                             then (case gzip_write env final of
                                     Inl err \<Rightarrow> body mw | Inr z \<Rightarrow> z)
                             else final)]\<rparr>)"
proof (cases "EqualFold (Header_Get (rw_header (ResponseWriter mw)) ''Content-Encoding'') ''gzip''")
  case True
  show ?thesis
  proof (cases "gzip_write env final")
    case (Inl e)
    with True assms show ?thesis
      by (intro exI [of _ Return] exI [of _ "rw_header (ResponseWriter mw)"])
        (simp add: respond_def Let_def rw_Write_def rw_WriteHeader_def)
  next
    case (Inr z)
    with True assms show ?thesis
      by (intro exI [of _ Proceed]
          exI [of _ "rw_header (rw_Header_Del (ResponseWriter mw) ''Content-Length'')"])
        (simp add: respond_def Let_def rw_Write_def rw_WriteHeader_def rw_Header_Del_def)
  qed
next
  case False
  with assms show ?thesis
    by (intro exI [of _ Proceed]
        exI [of _ "rw_header (rw_Header_Del (ResponseWriter mw) ''Content-Length'')"])
      (simp add: respond_def Let_def rw_Write_def rw_WriteHeader_def rw_Header_Del_def)
qed

lemma find_literal_first:
  assumes "lit \<noteq> []" and "\<not> sublist lit (pre @ butlast lit)"
  shows "find_literal lit (pre @ lit @ post) n = Some (n + length pre, n + length pre + length lit)"
  using assms(2)
proof (induction pre arbitrary: n)
  case Nil
  obtain c t where o: "lit = c # t" using assms(1) by (cases lit) auto
  show ?case unfolding o by simp
next
  case (Cons c pre)
  have np: "\<not> prefix lit ((c # pre) @ lit @ post)"
    using prefix_in_front [of lit "c # pre" post] Cons.prems by blast
  have "\<not> sublist lit (pre @ butlast lit)"
    using Cons.prems by (simp add: sublist_Cons_right)
  from Cons.IH [OF this, of "Suc n"] np show ?case by simp
qed

lemma find_literal_bound: "find_literal lit s n = Some (a, k) \<Longrightarrow> k \<le> n + length s"
proof (induction s arbitrary: n)
  case Nil
  then show ?case by (simp split: if_splits)
next
  case (Cons c s)
  show ?case
  proof (cases "prefix lit (c # s)")
    case True
    with Cons.prems have "k = n + length lit" by simp
    with True show ?thesis by (auto dest: prefix_length_le)
  next
    case False
    with Cons.prems have "find_literal lit s (Suc n) = Some (a, k)" by simp
    from Cons.IH [OF this] show ?thesis by simp
  qed
qed

lemma find_literal_absent: "\<not> sublist lit s \<Longrightarrow> find_literal lit s n = None"
proof (induction s arbitrary: n)
  case Nil
  then show ?case by auto
next
  case (Cons c s)
  then show ?case by (auto simp add: sublist_Cons_right)
qed

lemma insert_noscript_at:
  assumes "re_find_index env bodyTagPattern (p @ q) = Some (a, length p)"
  shows "insert_noscript env gtm (p @ q) = p @ gtmNoscript gtm @ q"
  using assms by (simp add: insert_noscript_def)

lemma example_body_bound:
  "\<forall>s a k. re_find_index example_stdlib_body bodyTagPattern s = Some (a, k) \<longrightarrow> k \<le> length s"
  using find_literal_bound [of "''<body>''" _ 0]
  by (auto simp add: example_stdlib_body_def)

lemma example_body_compiles: "re_syntax_error example_stdlib_body bodyTagPattern = None"
  by (simp add: example_stdlib_body_def example_stdlib_def bodyTagPattern_def)

lemma no_body_tag_in_script:
  "\<not> sublist ''<body>'' ((''<head>'' @ gtmScript ''GTM-1'' @ ''</head>'') @ ''<body'')"
  by (simp add: sublist_code gtmScript_def nl_def sq_def)

text \<open>A string that contains \<open>old\<close> has a first occurrence of it: the last hypothesis
  of the theorem below names the split of the body there, and excludes no body.\<close>

lemma not_sublist_butlast: "old \<noteq> [] \<Longrightarrow> \<not> sublist old (butlast old)"
proof (cases old rule: rev_cases)
  case Nil
  assume "old \<noteq> []"
  with Nil show ?thesis by simp
next
  case (snoc ys y)
  have "\<not> sublist (ys @ [y]) ys"
    by (auto dest: sublist_length_le)
  with snoc show ?thesis by simp
qed

lemma first_occurrence_exists:
  assumes "old \<noteq> []" and "sublist old s"
  shows "\<exists>pre post. s = pre @ old @ post \<and> \<not> sublist old (pre @ butlast old)"
  using assms(2)
proof (induction s)
  case Nil
  with assms(1) show ?case by simp
next
  case (Cons c t)
  show ?case
  proof (cases "prefix old (c # t)")
    case True
    then obtain post where "c # t = old @ post" by (auto simp add: prefix_def)
    with not_sublist_butlast [OF assms(1)] show ?thesis
      by (intro exI [of _ "[]"] exI [of _ post]) simp
  next
    case False
    with Cons.prems have "sublist old t" by (simp add: sublist_Cons_right)
    from Cons.IH [OF this] obtain pre post where
      t: "t = pre @ old @ post" and n: "\<not> sublist old (pre @ butlast old)" by blast
    have "\<not> prefix old (c # pre @ butlast old)"
    proof
      assume "prefix old (c # pre @ butlast old)"
      moreover have "prefix (c # pre @ butlast old) (c # t)"
        unfolding t using assms(1)
        by (simp add: prefix_def) (metis append_butlast_last_id append_Cons append_Nil append.assoc)
      ultimately have "prefix old (c # t)" by (rule prefix_order.trans)
      with False show False by simp
    qed
    with n have "\<not> sublist old ((c # pre) @ butlast old)"
      by (simp add: sublist_Cons_right)
    with t show ?thesis
      by (intro exI [of _ "c # pre"] exI [of _ post]) simp
  qed
qed

text \<open>
  Claim C4. In the rewrite branch of \<open>ServeHTTP\<close>, for a request that is forwarded,
  with an analytics ID, a Content-Type that starts with \<^verbatim>\<open>text/html\<close> once put in
  lower case, and the status 200, let \<open>bodyStr\<close> be the body the handler wrote, decompressed when the response is
  gzip-encoded. When \<open>bodyStr\<close> is \<open>pre\<close>, \<^verbatim>\<open></head>\<close>, \<open>post\<close> and this is the first place
  where the bytes \<^verbatim>\<open></head>\<close> occur, the text becomes \<open>pre\<close>, the script block,
  \<^verbatim>\<open></head>\<close>, \<open>post\<close>: the block stands right before that occurrence, once, and \<open>post\<close>
  with any later occurrence is as it was. When \<open>bodyStr\<close> does not contain these
  bytes, the text is \<open>bodyStr\<close>, with no error. This text then gets the noscript
  block at the end of the first match of the body tag pattern, if there is one, is
  compressed again when the response is gzip-encoded, and is written to the client
  after the status 200. The pattern is taken to compile, and a match to end within
  the text, as they do in Go.
\<close>

theorem rewrite_branch_script:
  assumes "url_path req \<noteq> sitemapPath sg" and "url_path req \<noteq> robotsPath sg"
    and "gtmID sg \<noteq> []"
    and "HasPrefix (ToLower (Header_Get (rw_header (ResponseWriter (captured sg rw req)))
           ''Content-Type'')) ''text/html''"
    and "status (captured sg rw req) = 200"
    and "(if EqualFold (Header_Get (rw_header (ResponseWriter (captured sg rw req)))
               ''Content-Encoding'') ''gzip''
          then gunzip env (written_bytes (next sg req))
          else Inr (written_bytes (next sg req))) = Inr bodyStr"
    and "re_syntax_error env bodyTagPattern = None"
    and "\<forall>s a k. re_find_index env bodyTagPattern s = Some (a, k) \<longrightarrow> k \<le> length s"
    and "sublist ''</head>'' bodyStr \<longrightarrow>
           bodyStr = pre @ ''</head>'' @ post \<and> \<not> sublist ''</head>'' (pre @ ''</head'')"
  shows "\<exists>out. ServeHTTP env sg rw req = Returns out \<and> forwarded out = [req] \<and>
           rw_calls (resp out) = rw_calls rw @
             [RW_WriteHeader 200,
              RW_Write
                (let modified = (if sublist ''</head>'' bodyStr
                                 then pre @ gtmScript (gtmID sg) @ ''</head>'' @ post
                                 else bodyStr);
                     final = insert_noscript env (gtmID sg) modified
                 in if EqualFold (Header_Get (rw_header (ResponseWriter (captured sg rw req)))
                          ''Content-Encoding'') ''gzip''
                    then (case gzip_write env final of
                            Inl err \<Rightarrow> written_bytes (next sg req) | Inr z \<Rightarrow> z)
                    else final)]"
proof -
  let ?mw = "captured sg rw req"
  let ?final = "insert_noscript env (gtmID sg)
      (if sublist ''</head>'' bodyStr then pre @ gtmScript (gtmID sg) @ ''</head>'' @ post
       else bodyStr)"
  have i: "inject env (gtmID sg) bodyStr = Returns ?final"
    using inject_insert_noscript [OF assms(7,8), of "gtmID sg" bodyStr]
      insert_script_cases [OF assms(9), of "gtmID sg"] by simp
  have d: "(if EqualFold (Header_Get (rw_header (ResponseWriter ?mw)) ''Content-Encoding'') ''gzip''
          then gunzip env (body ?mw) else Inr (body ?mw)) = Inr bodyStr"
    using assms(6) by (simp only: captured_body)
  obtain f hs where f: "f = Return \<or> f = Proceed" and
    r: "respond env sg ?mw =
             Returns (f \<lparr>rw_header = hs,
                rw_calls = rw_calls rw @
                  [RW_WriteHeader 200,
                   RW_Write (if EqualFold (Header_Get (rw_header (ResponseWriter ?mw))
                                  ''Content-Encoding'') ''gzip''
                             then (case gzip_write env ?final of
                                     Inl err \<Rightarrow> written_bytes (next sg req) | Inr z \<Rightarrow> z)
                             else ?final)]\<rparr>)"
    using respond_rewrite_decoded [OF assms(3,4,5) d i]
    unfolding captured_body captured_rw_calls by blast
  from f show ?thesis
  proof
    assume "f = Return"
    with r assms(1,2) show ?thesis
      by (simp add: ServeHTTP_def Let_def)
  next
    assume "f = Proceed"
    with r assms(1,2) show ?thesis
      by (simp add: ServeHTTP_def Let_def)
  qed
qed

text \<open>A body with a body tag and two \<^verbatim>\<open></head>\<close>, and a body in upper case.\<close>

theorem rewrite_branch_script_witness:
  "(\<exists>out. ServeHTTP example_stdlib_body
       (example_generator
          (\<lambda>r. [H_Set ''Content-Type'' ''text/html; charset=utf-8'',
                H_Write ''<head></head><body><p></head></p></body>'']) ''GTM-1'')
       empty_writer (example_request ''/products'') = Returns out \<and>
     forwarded out = [example_request ''/products''] \<and>
     rw_calls (resp out) =
       [RW_WriteHeader 200,
        RW_Write (''<head>'' @ gtmScript ''GTM-1'' @ ''</head><body>'' @ gtmNoscript ''GTM-1'' @
                  ''<p></head></p></body>'')])
   \<and> (\<exists>out. ServeHTTP example_stdlib_body
       (example_generator
          (\<lambda>r. [H_Set ''Content-Type'' ''text/html; charset=utf-8'',
                H_Write ''<HEAD></HEAD>'']) ''GTM-1'')
       empty_writer (example_request ''/products'') = Returns out \<and>
     forwarded out = [example_request ''/products''] \<and>
     rw_calls (resp out) = [RW_WriteHeader 200, RW_Write ''<HEAD></HEAD>''])"
proof -
  let ?req = "example_request ''/products''"
  have lo: "HasPrefix (ToLower ''text/html; charset=utf-8'') ''text/html''"
    by (simp add: HasPrefix_def ToLower_def lower_char_def)
  have ng: "\<not> EqualFold [] ''gzip''"
    by (simp add: EqualFold_def ToLower_def)
  have cap: "captured (example_generator
          (\<lambda>r. [H_Set ''Content-Type'' ''text/html; charset=utf-8'', H_Write b]) ''GTM-1'')
        empty_writer ?req =
      \<lparr>ResponseWriter =
         \<lparr>rw_header = (\<lambda>k. [])(''Content-Type'' := [''text/html; charset=utf-8'']),
          rw_calls = []\<rparr>,
       status = 200, body = b\<rparr>" for b
    by (simp add: captured_def next_ServeHTTP_def example_generator_def empty_writer_def
        mw_Write_def rw_Header_Set_def Header_Set_def Let_def)
  have hyps: "url_path ?req \<noteq> sitemapPath (example_generator h ''GTM-1'')"
    "url_path ?req \<noteq> robotsPath (example_generator h ''GTM-1'')"
    "gtmID (example_generator h ''GTM-1'') \<noteq> []" for h
    by (simp_all add: example_request_def example_generator_def)
  have ct: "HasPrefix (ToLower (Header_Get (rw_header (ResponseWriter (captured (example_generator
          (\<lambda>r. [H_Set ''Content-Type'' ''text/html; charset=utf-8'', H_Write b]) ''GTM-1'')
        empty_writer ?req))) ''Content-Type'')) ''text/html''" for b
    unfolding cap using lo by (simp add: Header_Get_def)
  have st: "status (captured (example_generator
          (\<lambda>r. [H_Set ''Content-Type'' ''text/html; charset=utf-8'', H_Write b]) ''GTM-1'')
        empty_writer ?req) = 200" for b
    unfolding cap by simp
  have gz: "\<not> EqualFold (Header_Get (rw_header (ResponseWriter (captured (example_generator
          (\<lambda>r. [H_Set ''Content-Type'' ''text/html; charset=utf-8'', H_Write b]) ''GTM-1'')
        empty_writer ?req))) ''Content-Encoding'') ''gzip''" for b
    unfolding cap using ng by (simp add: Header_Get_def)
  have dec: "(if EqualFold (Header_Get (rw_header (ResponseWriter (captured (example_generator
          (\<lambda>r. [H_Set ''Content-Type'' ''text/html; charset=utf-8'', H_Write b]) ''GTM-1'')
        empty_writer ?req))) ''Content-Encoding'') ''gzip''
      then gunzip example_stdlib_body (written_bytes (next (example_generator
          (\<lambda>r. [H_Set ''Content-Type'' ''text/html; charset=utf-8'', H_Write b]) ''GTM-1'') ?req))
      else Inr (written_bytes (next (example_generator
          (\<lambda>r. [H_Set ''Content-Type'' ''text/html; charset=utf-8'', H_Write b]) ''GTM-1'') ?req)))
      = Inr b" for b
    using gz [of b] by (simp add: example_generator_def)
  have s1: "sublist ''</head>'' ''<head></head><body><p></head></p></body>''"
    by (simp add: sublist_code)
  have sp1: "sublist ''</head>'' ''<head></head><body><p></head></p></body>'' \<longrightarrow>
      ''<head></head><body><p></head></p></body>'' =
        ''<head>'' @ ''</head>'' @ ''<body><p></head></p></body>'' \<and>
      \<not> sublist ''</head>'' (''<head>'' @ ''</head'')"
    by (simp add: sublist_code)
  have s2: "\<not> sublist ''</head>'' ''<HEAD></HEAD>''"
    by (simp add: sublist_code)
  have sp2: "sublist ''</head>'' ''<HEAD></HEAD>'' \<longrightarrow>
      ''<HEAD></HEAD>'' = [] @ ''</head>'' @ [] \<and> \<not> sublist ''</head>'' ([] @ ''</head'')"
    using s2 by simp
  have f1: "re_find_index example_stdlib_body bodyTagPattern
      ((''<head>'' @ gtmScript ''GTM-1'' @ ''</head>'') @ ''<body>'' @ ''<p></head></p></body>'') =
      Some (0 + length (''<head>'' @ gtmScript ''GTM-1'' @ ''</head>''),
            0 + length (''<head>'' @ gtmScript ''GTM-1'' @ ''</head>'') + length ''<body>'')"
    unfolding example_stdlib_body_def
    using find_literal_first [of "''<body>''" "''<head>'' @ gtmScript ''GTM-1'' @ ''</head>''"
        "''<p></head></p></body>''" 0] no_body_tag_in_script
    by simp
  have n1: "insert_noscript example_stdlib_body ''GTM-1''
      (''<head>'' @ gtmScript ''GTM-1'' @ ''</head>'' @ ''<body><p></head></p></body>'') =
      ''<head>'' @ gtmScript ''GTM-1'' @ ''</head><body>'' @ gtmNoscript ''GTM-1'' @
        ''<p></head></p></body>''"
    using insert_noscript_at [of example_stdlib_body
        "(''<head>'' @ gtmScript ''GTM-1'' @ ''</head>'') @ ''<body>''" "''<p></head></p></body>''"
        "length (''<head>'' @ gtmScript ''GTM-1'' @ ''</head>'')" "''GTM-1''"] f1
    by simp
  have n2: "insert_noscript example_stdlib_body ''GTM-1'' ''<HEAD></HEAD>'' = ''<HEAD></HEAD>''"
    by (simp add: insert_noscript_def example_stdlib_body_def find_literal_absent sublist_code)
  have g: "gtmID (example_generator h ''GTM-1'') = ''GTM-1''"
    "next (example_generator h ''GTM-1'') = h" for h
    by (simp_all add: example_generator_def)
  have e: "rw_calls empty_writer = []" by (simp add: empty_writer_def)
  from rewrite_branch_script [OF hyps ct st dec example_body_compiles example_body_bound sp1]
    s1 n1 gz [of "''<head></head><body><p></head></p></body>''"]
  have 1: "\<exists>out. ServeHTTP example_stdlib_body
       (example_generator
          (\<lambda>r. [H_Set ''Content-Type'' ''text/html; charset=utf-8'',
                H_Write ''<head></head><body><p></head></p></body>'']) ''GTM-1'')
       empty_writer ?req = Returns out \<and>
     forwarded out = [?req] \<and>
     rw_calls (resp out) =
       [RW_WriteHeader 200,
        RW_Write (''<head>'' @ gtmScript ''GTM-1'' @ ''</head><body>'' @ gtmNoscript ''GTM-1'' @
                  ''<p></head></p></body>'')]"
    by (simp add: g e Let_def)
  from rewrite_branch_script [OF hyps ct st dec example_body_compiles example_body_bound sp2]
    s2 n2 gz [of "''<HEAD></HEAD>''"]
  have 2: "\<exists>out. ServeHTTP example_stdlib_body
       (example_generator
          (\<lambda>r. [H_Set ''Content-Type'' ''text/html; charset=utf-8'',
                H_Write ''<HEAD></HEAD>'']) ''GTM-1'')
       empty_writer ?req = Returns out \<and>
     forwarded out = [?req] \<and>
     rw_calls (resp out) = [RW_WriteHeader 200, RW_Write ''<HEAD></HEAD>'']"
    by (simp add: g e Let_def)
  from 1 2 show ?thesis by blast
qed

section \<open>The registry over the life of the server\<close>

lemma New_paths_empty: "New env nxt config nm = Returns (Inr sg) \<Longrightarrow> paths sg = {||}"
  by (auto simp add: New_def Let_def split: sum.splits outcome.splits)

lemma ServeHTTP_paths:
  assumes "ServeHTTP env sg rw req = Returns out"
  shows "paths (gen out) = paths sg \<or> paths (gen out) = finsert (fullURL req) (paths sg)"
  using assms
  by (auto simp add: ServeHTTP_def Let_def split: option.splits outcome.splits flow.splits if_splits)

lemma reachable_urls:
  assumes "reachable env reqs sg" and "u |\<in>| paths sg"
  shows "\<exists>req\<in>set reqs. u = fullURL req"
  using assms
proof (induction rule: reachable.induct)
  case (reachable_New nxt config nm sg)
  then show ?case by (simp add: New_paths_empty)
next
  case (reachable_ServeHTTP reqs sg h rw req out)
  from ServeHTTP_paths [OF reachable_ServeHTTP.hyps(2)]
  have "paths (gen out) = paths sg \<or> paths (gen out) = finsert (fullURL req) (paths sg)"
    by simp
  with reachable_ServeHTTP.prems reachable_ServeHTTP.IH show ?case by auto
next
  case (reachable_Panic reqs sg h rw req p)
  then show ?case by auto
qed

lemma suffix_slash: "suffix ''/'' s \<longleftrightarrow> s \<noteq> [] \<and> last s = CHR ''/''"
  by (cases s rule: rev_cases) (auto simp add: suffix_def)

lemma suffix_two_slashes:
  "suffix ''//'' s \<longleftrightarrow> (\<exists>t. s = t @ ''/'' \<and> suffix ''/'' t)"
  by (auto simp add: suffix_def)

lemma fullURL_suffix:
  "suffix ''/'' (fullURL req) \<longleftrightarrow>
     suffix ''//'' (url_path req) \<or>
     (url_path req = [] \<or> url_path req = ''/'') \<and> (req_host req = [] \<or> suffix ''/'' (req_host req))"
proof (cases "url_path req" rule: rev_cases)
  case Nil
  then show ?thesis
    by (auto simp add: fullURL_def TrimSuffix_def suffix_slash)
next
  case (snoc t c)
  show ?thesis
  proof (cases "c = CHR ''/''")
    case True
    with snoc have T: "TrimSuffix (url_path req) ''/'' = t"
      by (simp add: TrimSuffix_def suffix_def)
    show ?thesis
    proof (cases "t = []")
      case True
      with snoc \<open>c = CHR ''/''\<close> T show ?thesis
        by (auto simp add: fullURL_def suffix_slash dest: suffix_length_le)
    next
      case False
      with snoc \<open>c = CHR ''/''\<close> T show ?thesis
        by (auto simp add: fullURL_def suffix_slash suffix_two_slashes)
    qed
  next
    case False
    with snoc have T: "TrimSuffix (url_path req) ''/'' = url_path req"
      by (simp add: TrimSuffix_def suffix_def)
    from snoc False T show ?thesis
      by (auto simp add: fullURL_def suffix_slash suffix_two_slashes)
  qed
qed

text \<open>
  Claim C6, as amended. In every reachable state, every URL of the registry is that
  of a request that was served: its scheme, \<^verbatim>\<open>://\<close>, its host, and its path with one
  trailing slash removed, if it had one. Such a URL ends with a slash exactly when
  the path ended with two slashes, or the path was empty or \<^verbatim>\<open>/\<close> and the host is
  empty or ends with a slash. In particular, for a host that is not empty and does
  not end with a slash, no URL stored for a path that does not end with two slashes
  ends with a slash.
\<close>

theorem stored_urls:
  assumes "reachable env reqs sg" and "u |\<in>| paths sg"
  shows "\<exists>req\<in>set reqs.
           u = request_scheme req @ ''://'' @ req_host req @ TrimSuffix (url_path req) ''/'' \<and>
           (suffix ''/'' u \<longleftrightarrow>
              suffix ''//'' (url_path req) \<or>
              (url_path req = [] \<or> url_path req = ''/'') \<and>
              (req_host req = [] \<or> suffix ''/'' (req_host req)))"
proof -
  obtain req where r: "req \<in> set reqs" "u = fullURL req"
    using reachable_urls [OF assms] by blast
  from r(2) fullURL_suffix [of req] have
    "u = request_scheme req @ ''://'' @ req_host req @ TrimSuffix (url_path req) ''/'' \<and>
           (suffix ''/'' u \<longleftrightarrow>
              suffix ''//'' (url_path req) \<or>
              (url_path req = [] \<or> url_path req = ''/'') \<and>
              (req_host req = [] \<or> suffix ''/'' (req_host req)))"
    by (simp add: fullURL_def)
  with r(1) show ?thesis by blast
qed

lemma example_not_ignored:
  "\<not> prefix ''/admin/'' p \<Longrightarrow>
   \<not> is_ignored example_stdlib (map Regexp (''^/admin/.*'' # defaultPatterns)) p"
  by (simp add: defaultPatterns_def example_stdlib_def)

lemma example_serve:
  assumes "\<not> prefix ''/admin/'' p" and "p \<noteq> ''/sitemap.xml''" and "p \<noteq> ''/robots.txt''"
  shows "ServeHTTP example_stdlib (example_generator (\<lambda>r. [H_Write ''ok'']) []) empty_writer
           (example_request p) =
         Returns \<lparr>gen = (example_generator (\<lambda>r. [H_Write ''ok'']) [])
                     \<lparr>paths := {|''https://example.com'' @ TrimSuffix p ''/''|}\<rparr>,
                  resp = \<lparr>rw_header = (\<lambda>k. []), rw_calls = [RW_WriteHeader 200, RW_Write ''ok'']\<rparr>,
                  forwarded = [example_request p]\<rparr>"
proof -
  let ?sg = "example_generator (\<lambda>r. [H_Write ''ok'']) []"
  have c: "captured ?sg empty_writer (example_request p) =
      \<lparr>ResponseWriter = empty_writer, status = 200, body = ''ok''\<rparr>"
    by (simp add: captured_def next_ServeHTTP_def example_generator_def mw_Write_def Let_def)
  have r: "respond example_stdlib ?sg \<lparr>ResponseWriter = empty_writer, status = 200, body = ''ok''\<rparr> =
      Returns (Proceed \<lparr>rw_header = (\<lambda>k. []), rw_calls = [RW_WriteHeader 200, RW_Write ''ok'']\<rparr>)"
    by (simp add: respond_def Let_def empty_writer_def Header_Get_def EqualFold_def ToLower_def
        example_generator_def rw_Write_def rw_WriteHeader_def)
  have i: "\<not> is_ignored example_stdlib (ignores ?sg) (url_path (example_request p))"
    using example_not_ignored [OF assms(1)] by (simp add: example_generator_def example_request_def)
  have f: "fullURL (example_request p) = ''https://example.com'' @ TrimSuffix p ''/''"
    by (simp add: fullURL_def example_request_def request_scheme_def Header_Get_def)
  have s: "url_path (example_request p) \<noteq> sitemapPath ?sg" "url_path (example_request p) \<noteq> robotsPath ?sg"
    using assms(2,3) by (simp_all add: example_generator_def example_request_def)
  have e: "paths ?sg = {||}"
    by (simp add: example_generator_def)
  show ?thesis
    using s i by (simp add: ServeHTTP_def Let_def c r f e)
qed

lemma example_reachable:
  assumes "\<not> prefix ''/admin/'' p" and "p \<noteq> ''/sitemap.xml''" and "p \<noteq> ''/robots.txt''"
  shows "reachable example_stdlib [example_request p]
           ((example_generator (\<lambda>r. [H_Write ''ok'']) [])
              \<lparr>paths := {|''https://example.com'' @ TrimSuffix p ''/''|}\<rparr>)"
proof -
  let ?sg = "example_generator (\<lambda>r. [H_Write ''ok'']) []"
  have 0: "reachable example_stdlib [] ?sg"
    by (rule reachable_New [OF New_example])
  have 1: "?sg\<lparr>next := \<lambda>r. [H_Write ''ok'']\<rparr> = ?sg"
    by (simp add: example_generator_def)
  from reachable_ServeHTTP [OF 0, of "\<lambda>r. [H_Write ''ok'']" empty_writer "example_request p"]
    example_serve [OF assms]
  show ?thesis unfolding 1 by simp
qed

text \<open>
  Claim C6 as it is stated fails for a path that ends with two slashes:
  \<open>TrimSuffix\<close> removes one of them. After the request \<^verbatim>\<open>/a//\<close>, answered with the
  status 200, the registry holds \<^verbatim>\<open>https://example.com/a/\<close>.
\<close>

theorem trailing_slash_counterexample:
  "reachable example_stdlib [example_request ''/a//'']
     ((example_generator (\<lambda>r. [H_Write ''ok'']) []) \<lparr>paths := {|''https://example.com/a/''|}\<rparr>)
   \<and> ''https://example.com/a/'' |\<in>|
       paths ((example_generator (\<lambda>r. [H_Write ''ok'']) []) \<lparr>paths := {|''https://example.com/a/''|}\<rparr>)
   \<and> suffix ''/'' ''https://example.com/a/''"
proof -
  have "TrimSuffix ''/a//'' ''/'' = ''/a/''"
    by (simp add: TrimSuffix_def suffix_def)
  with example_reachable [of "''/a//''"] show ?thesis
    by (simp add: suffix_def)
qed

theorem stored_urls_witness:
  "\<exists>req\<in>set [example_request ''/products/''].
      ''https://example.com/products'' =
        request_scheme req @ ''://'' @ req_host req @ TrimSuffix (url_path req) ''/'' \<and>
      (suffix ''/'' ''https://example.com/products'' \<longleftrightarrow>
         suffix ''//'' (url_path req) \<or>
         (url_path req = [] \<or> url_path req = ''/'') \<and>
         (req_host req = [] \<or> suffix ''/'' (req_host req)))"
proof -
  have t: "TrimSuffix ''/products/'' ''/'' = ''/products''"
    by (simp add: TrimSuffix_def suffix_def)
  have r: "reachable example_stdlib [example_request ''/products/'']
     ((example_generator (\<lambda>r. [H_Write ''ok'']) [])
        \<lparr>paths := {|''https://example.com/products''|}\<rparr>)"
    using example_reachable [of "''/products/''"] t by simp
  have m: "''https://example.com/products'' |\<in>|
     paths ((example_generator (\<lambda>r. [H_Write ''ok'']) [])
        \<lparr>paths := {|''https://example.com/products''|}\<rparr>)"
    by simp
  show ?thesis
    by (rule stored_urls [OF r m])
qed

section \<open>A Content-Type in upper case\<close>

text \<open>
  Claim C2 as it is stated, with the Content-Type compared as it was sent, fails
  for \<^verbatim>\<open>Text/HTML\<close>: this value does not start with \<^verbatim>\<open>text/html\<close>, yet with an
  analytics ID and the status 200 the body \<^verbatim>\<open><head></head>\<close> reaches the client with
  the script block in it.
\<close>

theorem content_type_case_counterexample:
  "\<not> prefix ''text/html''
       (Header_Get (rw_header (ResponseWriter (captured
          (example_generator (\<lambda>r. [H_Set ''Content-Type'' ''Text/HTML'', H_Write ''<head></head>'']) ''GTM-1'')
          empty_writer (example_request ''/products''))))
          ''Content-Type'')
   \<and> written_bytes (next
         (example_generator (\<lambda>r. [H_Set ''Content-Type'' ''Text/HTML'', H_Write ''<head></head>'']) ''GTM-1'')
         (example_request ''/products'')) = ''<head></head>''
   \<and> ServeHTTP example_stdlib
        (example_generator (\<lambda>r. [H_Set ''Content-Type'' ''Text/HTML'', H_Write ''<head></head>'']) ''GTM-1'')
        empty_writer (example_request ''/products'') =
      Returns \<lparr>gen = (example_generator
            (\<lambda>r. [H_Set ''Content-Type'' ''Text/HTML'', H_Write ''<head></head>'']) ''GTM-1'')
            \<lparr>paths := {|''https://example.com/products''|}\<rparr>,
        resp = \<lparr>rw_header = (\<lambda>k. [])(''Content-Type'' := [''Text/HTML''], ''Content-Length'' := []),
                 rw_calls = [RW_WriteHeader 200,
                             RW_Write (''<head>'' @ gtmScript ''GTM-1'' @ ''</head>'')]\<rparr>,
        forwarded = [example_request ''/products'']\<rparr>
   \<and> ''<head>'' @ gtmScript ''GTM-1'' @ ''</head>'' \<noteq> ''<head></head>''"
proof -
  let ?h = "\<lambda>r::request. [H_Set ''Content-Type'' ''Text/HTML'', H_Write ''<head></head>'']"
  let ?sg = "example_generator ?h ''GTM-1''"
  let ?req = "example_request ''/products''"
  let ?mw = "\<lparr>ResponseWriter =
         \<lparr>rw_header = (\<lambda>k. [])(''Content-Type'' := [''Text/HTML'']), rw_calls = []\<rparr>,
       status = 200, body = ''<head></head>''\<rparr>"
  have c: "captured ?sg empty_writer ?req = ?mw"
    by (simp add: captured_def next_ServeHTTP_def example_generator_def empty_writer_def
        mw_Write_def rw_Header_Set_def Header_Set_def Let_def)
  have ct: "Header_Get (rw_header (ResponseWriter ?mw)) ''Content-Type'' = ''Text/HTML''"
    and ce: "Header_Get (rw_header (ResponseWriter ?mw)) ''Content-Encoding'' = []"
    by (simp_all add: Header_Get_def)
  have lo: "ToLower ''Text/HTML'' = ''text/html''"
    by code_simp
  have ng: "\<not> EqualFold [] ''gzip''"
    by (simp add: EqualFold_def ToLower_def)
  have i: "insert_script ''GTM-1'' ''<head></head>'' = ''<head>'' @ gtmScript ''GTM-1'' @ ''</head>''"
    by (simp add: insert_script_def)
  have r: "respond example_stdlib ?sg ?mw =
      Returns (Proceed \<lparr>rw_header = (\<lambda>k. [])(''Content-Type'' := [''Text/HTML''], ''Content-Length'' := []),
        rw_calls = [RW_WriteHeader 200, RW_Write (''<head>'' @ gtmScript ''GTM-1'' @ ''</head>'')]\<rparr>)"
    using respond_rewrite [of ?sg ?mw example_stdlib]
    unfolding ct ce
    by (simp add: lo ng HasPrefix_def example_inject i
        rw_Write_def rw_WriteHeader_def rw_Header_Del_def Header_Del_def example_generator_def)
  have ni: "\<not> is_ignored example_stdlib (ignores ?sg) (url_path ?req)"
    by (simp add: example_generator_def example_request_def defaultPatterns_def example_stdlib_def)
  have f: "fullURL ?req = ''https://example.com/products''"
    by (simp add: fullURL_def example_request_def request_scheme_def Header_Get_def TrimSuffix_def suffix_def)
  have s: "url_path ?req \<noteq> sitemapPath ?sg" "url_path ?req \<noteq> robotsPath ?sg"
    by (simp_all add: example_generator_def example_request_def)
  have e: "paths ?sg = {||}" "next ?sg = ?h"
    by (simp_all add: example_generator_def)
  have 1: "ServeHTTP example_stdlib ?sg empty_writer ?req =
      Returns \<lparr>gen = ?sg\<lparr>paths := {|''https://example.com/products''|}\<rparr>,
        resp = \<lparr>rw_header = (\<lambda>k. [])(''Content-Type'' := [''Text/HTML''], ''Content-Length'' := []),
                 rw_calls = [RW_WriteHeader 200,
                             RW_Write (''<head>'' @ gtmScript ''GTM-1'' @ ''</head>'')]\<rparr>,
        forwarded = [?req]\<rparr>"
    using s ni by (simp add: ServeHTTP_def Let_def c r f e)
  have 2: "\<not> prefix ''text/html'' (Header_Get (rw_header (ResponseWriter (captured ?sg empty_writer ?req))) ''Content-Type'')"
    unfolding c ct by simp
  have 3: "written_bytes (next ?sg ?req) = ''<head></head>''"
    unfolding e by simp
  have 4: "''<head>'' @ gtmScript ''GTM-1'' @ ''</head>'' \<noteq> ''<head></head>''"
    by (simp add: gtmScript_def)
  from 1 2 3 4 show ?thesis by blast
qed

end
